theory Spec2Isabelle
  imports Complex_Main
begin

section \<open>Values shared by the chatbot modules\<close>

text \<open>
  Python values that travel through \<^verbatim>\<open>json.dumps\<close> and \<^verbatim>\<open>json.loads\<close>. A Python
  \<^verbatim>\<open>dict\<close> with string keys is an association list read with \<open>map_of\<close>; a finite
  \<^verbatim>\<open>float\<close> (such as \<^verbatim>\<open>time.time()\<close>) is the rational number it denotes.
\<close>

datatype json =
    JNull
  | JBool bool
  | JInt int
  | JFloat rat
  | JStr string
  | JList "json list"
  | JDict "(string \<times> json) list"

text \<open>\<^verbatim>\<open>d.get(key, default)\<close> on a dict.\<close>

definition dict_get :: "(string \<times> json) list \<Rightarrow> string \<Rightarrow> json \<Rightarrow> json" where
  "dict_get d k dflt = (case map_of d k of None \<Rightarrow> dflt | Some v \<Rightarrow> v)"

section \<open>The pending-query store (\<^verbatim>\<open>scripts/chatbot/warehouse_tools.py\<close>)\<close>

subsection \<open>Python string helpers used by the module\<close>

text \<open>
  \<^verbatim>\<open>str.isspace\<close> on one character; a \<open>char\<close> stands for the code point of the same
  number (0 to 255).
\<close>

definition isspace :: "char \<Rightarrow> bool" where
  "isspace c = ((of_char c :: nat) \<in> {9, 10, 11, 12, 13, 28, 29, 30, 31, 32, 133, 160})"

text \<open>\<^verbatim>\<open>s.strip()\<close>.\<close>

definition py_strip :: "string \<Rightarrow> string" where
  "py_strip s = rev (dropWhile isspace (rev (dropWhile isspace s)))"

subsection \<open>\<^verbatim>\<open>PendingQuery\<close> and the module-level dictionary\<close>

record PendingQuery =
  query_id :: string
  tool_name :: string
  sql :: string
  created_at :: rat

text \<open>
  The process state the module touches: its dictionary \<^verbatim>\<open>_PENDING_QUERIES\<close>, and the
  warehouse, seen through the list of pending queries whose SQL has been handed to
  \<^verbatim>\<open>cursor.execute\<close> (oldest first).
\<close>

record world =
  PENDING_QUERIES :: "string \<rightharpoonup> PendingQuery"
  executed :: "PendingQuery list"

definition initial_world :: world where
  "initial_world = \<lparr>PENDING_QUERIES = Map.empty, executed = []\<rparr>"

text \<open>
  \<^verbatim>\<open>_register_pending_query\<close>. The two values the function draws from its environment,
  \<^verbatim>\<open>str(uuid.uuid4())\<close> and \<^verbatim>\<open>time.time()\<close>, are arguments.
\<close>

definition register_pending_query ::
  "string \<Rightarrow> rat \<Rightarrow> string \<Rightarrow> string \<Rightarrow> world \<Rightarrow> PendingQuery \<times> world" where
  "register_pending_query uuid4 now tool sql_text w =
     (let pq = \<lparr>query_id = uuid4, tool_name = tool, sql = py_strip sql_text, created_at = now\<rparr>
      in (pq, w\<lparr>PENDING_QUERIES := (PENDING_QUERIES w)(uuid4 \<mapsto> pq)\<rparr>))"

definition get_pending_query :: "string \<Rightarrow> world \<Rightarrow> PendingQuery option" where
  "get_pending_query qid w = PENDING_QUERIES w qid"

text \<open>\<^verbatim>\<open>_PENDING_QUERIES.pop(query_id, None)\<close>.\<close>

definition pop_pending :: "string \<Rightarrow> world \<Rightarrow> PendingQuery option \<times> world" where
  "pop_pending qid w =
     (PENDING_QUERIES w qid, w\<lparr>PENDING_QUERIES := (PENDING_QUERIES w)(qid := None)\<rparr>)"

definition cancel_pending_query :: "string \<Rightarrow> world \<Rightarrow> bool \<times> world" where
  "cancel_pending_query qid w =
     (case pop_pending qid w of (r, w') \<Rightarrow> (r \<noteq> None, w'))"

subsection \<open>Executing an approved query\<close>

text \<open>
  What Snowflake does when \<^verbatim>\<open>execute_pending_query\<close> reaches it with an SQL text:
  \<^item> \<open>ConnectRaises e\<close>: \<^verbatim>\<open>snowflake.connector.connect\<close> raises \<open>e\<close>, nothing is sent;
  \<^item> \<open>ExecuteRaises e\<close>: \<^verbatim>\<open>cursor.execute(pq.sql)\<close> is called and raises \<open>e\<close>;
  \<^item> \<open>Fetched columns rows\<close>: the statement runs; \<^verbatim>\<open>cursor.description\<close> names the
    columns and \<^verbatim>\<open>fetchall()\<close> returns the rows.
\<close>

datatype db_outcome =
    ConnectRaises string
  | ExecuteRaises string
  | Fetched "string list" "json list list"

text \<open>
  The collaborators of \<^verbatim>\<open>execute_pending_query\<close>: the warehouse, and pandas'
  \<^verbatim>\<open>DataFrame(results, columns=columns).to_json(orient="records", date_format="iso")\<close>.
\<close>

record warehouse =
  snowflake :: "string \<Rightarrow> db_outcome"
  to_json :: "string list \<Rightarrow> json list list \<Rightarrow> string"

definition not_found_message :: string where
  "not_found_message = ''No pending query found (it may have been executed or cancelled already).''"

text \<open>
  \<^verbatim>\<open>get_chatbot_snowflake_connection\<close> wraps every exception that reaches its
  \<^verbatim>\<open>yield\<close>, from \<^verbatim>\<open>connect\<close> or from the body of the \<^verbatim>\<open>with\<close> block, in
  \<^verbatim>\<open>Exception(f"Snowflake connection failed: {str(e)}")\<close>.
\<close>

definition connection_failed :: "string \<Rightarrow> string" where
  "connection_failed e = ''Snowflake connection failed: '' @ e"

definition execute_pending_query :: "warehouse \<Rightarrow> string \<Rightarrow> world \<Rightarrow> string \<times> world" where
  "execute_pending_query wh qid w =
     (case pop_pending qid w of
        (None, w') \<Rightarrow> (not_found_message, w')
      | (Some pq, w') \<Rightarrow>
          (case snowflake wh (sql pq) of
             ConnectRaises e \<Rightarrow> (''Error executing query: '' @ connection_failed e, w')
           | ExecuteRaises e \<Rightarrow>
               (''Error executing query: '' @ connection_failed e,
                w'\<lparr>executed := executed w' @ [pq]\<rparr>)
           | Fetched columns results \<Rightarrow>
               (if results = [] then ''Query executed successfully but returned no rows.''
                else to_json wh columns results,
                w'\<lparr>executed := executed w' @ [pq]\<rparr>)))"

subsection \<open>Sequences of calls on the store\<close>

text \<open>
  The calls a process makes on the store, one after another: a privileged tool staging a
  query (with the identifier and time drawn for it), the approval path executing one
  (against the warehouse as it is at that moment), the rejection path cancelling one.
\<close>

datatype store_call =
    Stage string rat string string
  | Execute warehouse string
  | Cancel string

fun store_step :: "store_call \<Rightarrow> world \<Rightarrow> world" where
  "store_step (Stage uuid4 now tool sql_text) w = snd (register_pending_query uuid4 now tool sql_text w)"
| "store_step (Execute wh qid) w = snd (execute_pending_query wh qid w)"
| "store_step (Cancel qid) w = snd (cancel_pending_query qid w)"

fun run_calls :: "store_call list \<Rightarrow> world \<Rightarrow> world" where
  "run_calls [] w = w"
| "run_calls (c # cs) w = run_calls cs (store_step c w)"

text \<open>The identifiers drawn by the staging calls of a sequence, in order.\<close>

fun staged_ids :: "store_call list \<Rightarrow> string list" where
  "staged_ids [] = []"
| "staged_ids (Stage uuid4 now tool sql_text # cs) = uuid4 # staged_ids cs"
| "staged_ids (c # cs) = staged_ids cs"

text \<open>How often the SQL of query \<open>qid\<close> has been handed to the warehouse.\<close>

definition executions :: "string \<Rightarrow> world \<Rightarrow> nat" where
  "executions qid w = length (filter (\<lambda>pq. query_id pq = qid) (executed w))"

text \<open>
  The invariant of the store, for a set \<open>U\<close> of identifiers drawn so far: every record
  sits under its own identifier; the identifiers in the dictionary and in the execution
  log have been drawn; an executed query is no longer pending; no identifier occurs twice
  in the execution log.
\<close>

definition store_inv :: "string set \<Rightarrow> world \<Rightarrow> bool" where
  "store_inv U w =
     ((\<forall>k pq. PENDING_QUERIES w k = Some pq \<longrightarrow> query_id pq = k)
      \<and> dom (PENDING_QUERIES w) \<subseteq> U
      \<and> query_id ` set (executed w) \<subseteq> U
      \<and> (\<forall>pq \<in> set (executed w). PENDING_QUERIES w (query_id pq) = None)
      \<and> distinct (map query_id (executed w)))"

section \<open>The warehouse query tools\<close>

subsection \<open>More of Python's strings\<close>

definition newline :: string where
  "newline = [CHR 0x0A]"

definition apostrophe :: string where
  "apostrophe = [CHR 0x27]"

text \<open>\<^verbatim>\<open>sep.join(xs)\<close>.\<close>

fun py_join :: "string \<Rightarrow> string list \<Rightarrow> string" where
  "py_join sep [] = []"
| "py_join sep [x] = x"
| "py_join sep (x # y # ys) = x @ sep @ py_join sep (y # ys)"

text \<open>
  \<^verbatim>\<open>s.split()\<close>: the maximal runs of non-space characters of \<open>s\<close>. The first argument
  is the run being read.
\<close>

fun split_from :: "string \<Rightarrow> string \<Rightarrow> string list" where
  "split_from cur [] = (if cur = [] then [] else [cur])"
| "split_from cur (c # cs) =
     (if isspace c then (if cur = [] then split_from [] cs else cur # split_from [] cs)
      else split_from (cur @ [c]) cs)"

definition py_split :: "string \<Rightarrow> string list" where
  "py_split s = split_from [] s"

text \<open>\<^verbatim>\<open>str(n)\<close> of an \<^verbatim>\<open>int\<close>, as an f-string renders \<^verbatim>\<open>{limit}\<close> and \<^verbatim>\<open>{days}\<close>.\<close>

fun digits :: "nat \<Rightarrow> string" where
  "digits n =
     (if n < 10 then [''0123456789'' ! n]
      else digits (n div 10) @ [''0123456789'' ! (n mod 10)])"

declare digits.simps [simp del]

definition str_int :: "int \<Rightarrow> string" where
  "str_int i = (if i < 0 then ''-'' @ digits (nat (- i)) else digits (nat i))"

text \<open>
  An \<^verbatim>\<open>Optional[str]\<close> argument in a condition (\<^verbatim>\<open>if customer_id:\<close>): \<^verbatim>\<open>None\<close> and the
  empty string are false.
\<close>

definition truthy :: "string option \<Rightarrow> bool" where
  "truthy a = (case a of None \<Rightarrow> False | Some s \<Rightarrow> s \<noteq> [])"

definition text_of :: "string option \<Rightarrow> string" where
  "text_of a = (case a of None \<Rightarrow> [] | Some s \<Rightarrow> s)"

subsection \<open>Exceptions\<close>

text \<open>
  The exceptions of the model: \<^verbatim>\<open>IndexError\<close> from indexing an empty list, and any other
  exception with its \<^verbatim>\<open>str(e)\<close>.
\<close>

datatype exn = IndexError | Raised string

fun str_exn :: "exn \<Rightarrow> string" where
  "str_exn IndexError = ''list index out of range''"
| "str_exn (Raised m) = m"

subsection \<open>Configuration and library functions\<close>

text \<open>
  The module constants read from the process environment
  (\<^verbatim>\<open>os.getenv("SNOWFLAKE_DATABASE", "DB_T23")\<close>, \<^verbatim>\<open>os.getenv("SNOWFLAKE_SCHEMA", "SC_T23")\<close>).
\<close>

record config =
  SNOWFLAKE_DATABASE :: string
  SNOWFLAKE_SCHEMA :: string

definition MARTS_SCHEMA :: string where
  "MARTS_SCHEMA = ''MART''"

text \<open>
  Functions of the Python library that the modules call and that are not part of the
  repository: \<^verbatim>\<open>json.dumps\<close>, \<^verbatim>\<open>json.loads\<close> (\<open>None\<close> when it raises), \<^verbatim>\<open>str\<close> on a
  value that is not a string, and \<^verbatim>\<open>str.upper\<close>; and the text of the validation error
  that the constructor of \<^verbatim>\<open>ToolMessage\<close> raises for \<^verbatim>\<open>tool_call_id=None\<close>.
\<close>

record python =
  json_dumps :: "json \<Rightarrow> string"
  json_loads :: "string \<Rightarrow> json option"
  str_of :: "json \<Rightarrow> string"
  upper :: "string \<Rightarrow> string"
  validation_error :: string

subsection \<open>The approval payload\<close>

text \<open>\<^verbatim>\<open>dataclasses.asdict(pq)\<close>: one entry per field of the dataclass, in declaration order.\<close>

definition asdict :: "PendingQuery \<Rightarrow> json" where
  "asdict pq =
     JDict [(''query_id'', JStr (query_id pq)),
            (''tool_name'', JStr (tool_name pq)),
            (''sql'', JStr (sql pq)),
            (''created_at'', JFloat (created_at pq))]"

text \<open>The dictionary that \<^verbatim>\<open>_pending_response\<close> serialises.\<close>

definition pending_payload :: "PendingQuery \<Rightarrow> json" where
  "pending_payload pq = JDict [(''status'', JStr ''PENDING_APPROVAL''), (''query'', asdict pq)]"

definition pending_response :: "python \<Rightarrow> PendingQuery \<Rightarrow> string" where
  "pending_response py pq = json_dumps py (pending_payload pq)"

subsection \<open>\<^verbatim>\<open>query_transactions\<close>\<close>

text \<open>
  The condition built from \<^verbatim>\<open>customer_name\<close>. \<^verbatim>\<open>name_parts[0]\<close> raises \<^verbatim>\<open>IndexError\<close>
  when the name consists of white space only.
\<close>

definition transactions_name_condition :: "string \<Rightarrow> exn + string" where
  "transactions_name_condition customer_name =
     (let name_parts = py_split (py_strip customer_name)
      in if length name_parts \<ge> 2 then
           (let first_name = hd name_parts;
                last_name = py_join '' '' (tl name_parts)
            in Inr (''TRIM(c.first_name) ILIKE '' @ apostrophe @ ''%'' @ first_name @ ''%'' @ apostrophe
                    @ '' AND TRIM(c.last_name) ILIKE '' @ apostrophe @ ''%'' @ last_name @ ''%''
                    @ apostrophe))
         else
           (case name_parts of
              [] \<Rightarrow> Inl IndexError
            | name # _ \<Rightarrow>
                Inr (''TRIM(c.first_name) ILIKE ('' @ apostrophe @ ''%'' @ name @ ''%'' @ apostrophe
                     @ '') OR TRIP(c.last_name) ILIKE '' @ apostrophe @ ''%'' @ name @ ''%''
                     @ apostrophe)))"

text \<open>The list \<^verbatim>\<open>conditions\<close> at the end of the four \<^verbatim>\<open>if\<close> statements.\<close>

definition transactions_conditions ::
  "python \<Rightarrow> string option \<Rightarrow> string option \<Rightarrow> string option \<Rightarrow> string option
     \<Rightarrow> exn + string list" where
  "transactions_conditions py customer_id customer_name asset_symbol transaction_type =
     (let c1 = (if truthy customer_id
                then [''c.customer_id = '' @ apostrophe @ text_of customer_id @ apostrophe]
                else [])
      in case (if truthy customer_name
               then (case transactions_name_condition (text_of customer_name) of
                       Inl e \<Rightarrow> Inl e
                     | Inr c \<Rightarrow> Inr [c])
               else Inr [])
         of Inl e \<Rightarrow> Inl e
          | Inr c2 \<Rightarrow>
              Inr (c1 @ c2
                   @ (if truthy asset_symbol
                      then [''h.asset_symbol = '' @ apostrophe @ text_of asset_symbol @ apostrophe]
                      else [])
                   @ (if truthy transaction_type
                      then [''t.transaction_type = '' @ apostrophe
                            @ upper py (text_of transaction_type) @ apostrophe]
                      else [])))"

definition transactions_sql :: "config \<Rightarrow> string list \<Rightarrow> int \<Rightarrow> string" where
  "transactions_sql cfg conditions limit =
     (let where_clause = (if conditions \<noteq> [] then ''WHERE '' @ py_join '' AND '' conditions else [])
      in py_join newline
       ['''',
        ''        SELECT'',
        ''            c.customer_id,'',
        ''            c.first_name,'',
        ''            c.last_name,'',
        ''            h.asset_symbol,'',
        ''            h.asset_type,'',
        ''            t.transaction_type,'',
        ''            t.transaction_amount,'',
        ''            t.fee_amount,'',
        ''            t.transaction_timestamp,'',
        ''            t.data_date,'',
        ''            c.customer_tier,'',
        ''            c.country'',
        ''        FROM '' @ SNOWFLAKE_DATABASE cfg @ ''.'' @ SNOWFLAKE_SCHEMA cfg @ ''_'' @ MARTS_SCHEMA @ ''.fct_transactions t'',
        ''        JOIN '' @ SNOWFLAKE_DATABASE cfg @ ''.'' @ SNOWFLAKE_SCHEMA cfg @ ''_'' @ MARTS_SCHEMA @ ''.dim_customer c'',
        ''            ON t.customer_hk = c.customer_hk'',
        ''        JOIN '' @ SNOWFLAKE_DATABASE cfg @ ''.'' @ SNOWFLAKE_SCHEMA cfg @ ''_'' @ MARTS_SCHEMA @ ''.dim_asset h'',
        ''            ON t.asset_hk = h.asset_hk'',
        ''        '' @ where_clause,
        ''        ORDER BY t.transaction_timestamp DESC'',
        ''        LIMIT '' @ str_int limit,
        ''        ''])"

text \<open>
  The tool: the \<^verbatim>\<open>try\<close> body builds the SQL, stages it and returns the approval payload;
  the \<^verbatim>\<open>except\<close> clause turns an exception into a message.
\<close>

definition query_transactions ::
  "config \<Rightarrow> python \<Rightarrow> string \<Rightarrow> rat \<Rightarrow> string option \<Rightarrow> string option \<Rightarrow> string option
     \<Rightarrow> string option \<Rightarrow> int \<Rightarrow> world \<Rightarrow> string \<times> world" where
  "query_transactions cfg py uuid4 now customer_id customer_name asset_symbol transaction_type limit w =
     (case transactions_conditions py customer_id customer_name asset_symbol transaction_type of
        Inl e \<Rightarrow> (''Error preparing transactions query: '' @ str_exn e, w)
      | Inr conditions \<Rightarrow>
          (case register_pending_query uuid4 now ''query_transactions''
                  (transactions_sql cfg conditions limit) w
           of (pq, w') \<Rightarrow> (pending_response py pq, w')))"

subsection \<open>\<^verbatim>\<open>query_asset_prices\<close>\<close>

definition asset_prices_sql :: "config \<Rightarrow> string option \<Rightarrow> string option \<Rightarrow> int \<Rightarrow> int \<Rightarrow> string" where
  "asset_prices_sql cfg asset_symbol asset_type days limit =
     (let conditions =
            [''observed_at >= DATEADD(day, -'' @ str_int days @ '', CURRENT_DATE())'']
            @ (if truthy asset_symbol
               then [''asset_symbol = '' @ apostrophe @ text_of asset_symbol @ apostrophe]
               else [])
            @ (if truthy asset_type
               then [''asset_type = '' @ apostrophe @ text_of asset_type @ apostrophe]
               else []);
          where_clause = ''WHERE '' @ py_join '' AND '' conditions
      in py_join newline
       ['''',
        ''        SELECT'',
        ''            asset_symbol,'',
        ''            asset_type,'',
        ''            observed_at,'',
        ''            price,'',
        ''            volume,'',
        ''            price_source,'',
        ''            asset_class,'',
        ''            price_date'',
        ''        FROM '' @ SNOWFLAKE_DATABASE cfg @ ''.'' @ SNOWFLAKE_SCHEMA cfg @ ''_'' @ MARTS_SCHEMA @ ''.fct_asset_prices'',
        ''        '' @ where_clause,
        ''        ORDER BY observed_at DESC'',
        ''        LIMIT '' @ str_int limit,
        ''        ''])"

definition query_asset_prices ::
  "config \<Rightarrow> python \<Rightarrow> string \<Rightarrow> rat \<Rightarrow> string option \<Rightarrow> string option \<Rightarrow> int \<Rightarrow> int
     \<Rightarrow> world \<Rightarrow> string \<times> world" where
  "query_asset_prices cfg py uuid4 now asset_symbol asset_type days limit w =
     (case register_pending_query uuid4 now ''query_asset_prices''
             (asset_prices_sql cfg asset_symbol asset_type days limit) w
      of (pq, w') \<Rightarrow> (pending_response py pq, w'))"

subsection \<open>\<^verbatim>\<open>query_transaction_summary\<close>\<close>

definition valid_groups :: "string list" where
  "valid_groups = [''asset_symbol'', ''customer_tier'', ''country'', ''transaction_type'']"

definition transaction_summary_sql :: "config \<Rightarrow> string \<Rightarrow> int \<Rightarrow> string" where
  "transaction_summary_sql cfg group_by limit =
     py_join newline
       ['''',
        ''        SELECT'',
        ''            '' @ group_by @ '','',
        ''            COUNT(*) as transaction_count,'',
        ''            SUM(t.transaction_amount) as total_amount,'',
        ''            AVG(t.transaction_amount) as avg_amount,'',
        ''            SUM(t.fee_amount) as total_fees,'',
        ''            COUNT(DISTINCT t.customer_hk) as unique_customers'',
        ''        FROM '' @ SNOWFLAKE_DATABASE cfg @ ''.'' @ SNOWFLAKE_SCHEMA cfg @ ''_'' @ MARTS_SCHEMA @ ''.fct_transactions t'',
        ''        JOIN '' @ SNOWFLAKE_DATABASE cfg @ ''.'' @ SNOWFLAKE_SCHEMA cfg @ ''_'' @ MARTS_SCHEMA @ ''.dim_customer c'',
        ''            ON t.customer_hk = c.customer_hk'',
        ''        JOIN '' @ SNOWFLAKE_DATABASE cfg @ ''.'' @ SNOWFLAKE_SCHEMA cfg @ ''_'' @ MARTS_SCHEMA @ ''.dim_asset h'',
        ''            ON t.asset_hk = h.asset_hk'',
        ''        GROUP BY '' @ group_by,
        ''        ORDER BY total_amount DESC'',
        ''        LIMIT '' @ str_int limit,
        ''        '']"

definition query_transaction_summary ::
  "config \<Rightarrow> python \<Rightarrow> string \<Rightarrow> rat \<Rightarrow> string \<Rightarrow> int \<Rightarrow> world \<Rightarrow> string \<times> world" where
  "query_transaction_summary cfg py uuid4 now group_by limit w =
     (if group_by \<notin> set valid_groups
      then (''Invalid group_by. Must be one of: '' @ py_join '', '' valid_groups, w)
      else (case register_pending_query uuid4 now ''query_transaction_summary''
                   (transaction_summary_sql cfg group_by limit) w
            of (pq, w') \<Rightarrow> (pending_response py pq, w')))"

subsection \<open>\<^verbatim>\<open>query_price_trends\<close>\<close>

definition price_trends_sql :: "config \<Rightarrow> string \<Rightarrow> int \<Rightarrow> string" where
  "price_trends_sql cfg asset_symbol days =
     py_join newline
       ['''',
        ''        SELECT'',
        ''            asset_symbol,'',
        ''            price_date,'',
        ''            observed_at,'',
        ''            price,'',
        ''            volume,'',
        ''            price_source,'',
        ''            LAG(price) OVER (ORDER BY observed_at) as previous_price,'',
        ''            price - LAG(price) OVER (ORDER BY observed_at) as price_change,'',
        ''            ((price - LAG(price) OVER (ORDER BY observed_at)) / LAG(price) OVER (ORDER BY observed_at)) * 100 as price_change_pct'',
        ''        FROM '' @ SNOWFLAKE_DATABASE cfg @ ''.'' @ SNOWFLAKE_SCHEMA cfg @ ''_'' @ MARTS_SCHEMA @ ''.fct_asset_prices'',
        ''        WHERE asset_symbol = '' @ apostrophe @ asset_symbol @ apostrophe,
        ''            AND observed_at >= DATEADD(day, -'' @ str_int days @ '', CURRENT_DATE())'',
        ''        ORDER BY observed_at ASC'',
        ''        '']"

definition query_price_trends ::
  "config \<Rightarrow> python \<Rightarrow> string \<Rightarrow> rat \<Rightarrow> string \<Rightarrow> int \<Rightarrow> world \<Rightarrow> string \<times> world" where
  "query_price_trends cfg py uuid4 now asset_symbol days w =
     (case register_pending_query uuid4 now ''query_price_trends''
             (price_trends_sql cfg asset_symbol days) w
      of (pq, w') \<Rightarrow> (pending_response py pq, w'))"

subsection \<open>\<^verbatim>\<open>query_news_events\<close>\<close>

definition news_events_sql :: "config \<Rightarrow> string option \<Rightarrow> int \<Rightarrow> string" where
  "news_events_sql cfg asset_symbol limit =
     (let where_clause =
            (if truthy asset_symbol
             then ''WHERE h.asset_symbol = '' @ apostrophe @ text_of asset_symbol @ apostrophe
             else [])
      in py_join newline
       ['''',
        ''        SELECT'',
        ''            h.asset_symbol,'',
        ''            n.title,'',
        ''            n.description,'',
        ''            n.published_at,'',
        ''            n.ingestion_source'',
        ''        FROM '' @ SNOWFLAKE_DATABASE cfg @ ''.'' @ SNOWFLAKE_SCHEMA cfg @ ''_'' @ MARTS_SCHEMA @ ''.fct_news_events n'',
        ''        JOIN '' @ SNOWFLAKE_DATABASE cfg @ ''.'' @ SNOWFLAKE_SCHEMA cfg @ ''_'' @ MARTS_SCHEMA @ ''.dim_asset h'',
        ''            ON n.asset_hk = h.asset_hk'',
        ''        '' @ where_clause,
        ''        ORDER BY n.published_at DESC'',
        ''        LIMIT '' @ str_int limit,
        ''        ''])"

definition query_news_events ::
  "config \<Rightarrow> python \<Rightarrow> string \<Rightarrow> rat \<Rightarrow> string option \<Rightarrow> int \<Rightarrow> world \<Rightarrow> string \<times> world" where
  "query_news_events cfg py uuid4 now asset_symbol limit w =
     (case register_pending_query uuid4 now ''query_news_events''
             (news_events_sql cfg asset_symbol limit) w
      of (pq, w') \<Rightarrow> (pending_response py pq, w'))"

subsection \<open>\<^verbatim>\<open>query_customer_by_name\<close>\<close>

text \<open>
  The \<^verbatim>\<open>WHERE\<close> clause of the customer search; as in \<^verbatim>\<open>query_transactions\<close>,
  \<^verbatim>\<open>name_parts[0]\<close> raises \<^verbatim>\<open>IndexError\<close> on a name without a word.
\<close>

definition customer_where_clause :: "string \<Rightarrow> exn + string" where
  "customer_where_clause customer_name =
     (let name_parts = py_split (py_strip customer_name)
      in if length name_parts \<ge> 2 then
           (let first_name = hd name_parts;
                last_name = py_join '' '' (tl name_parts)
            in Inr (''WHERE TRIM(c.first_name) ILIKE '' @ apostrophe @ ''%'' @ first_name @ ''%''
                    @ apostrophe @ '' AND TRIM(c.last_name) LIKE '' @ apostrophe @ ''%'' @ last_name
                    @ ''%'' @ apostrophe))
         else
           (case name_parts of
              [] \<Rightarrow> Inl IndexError
            | name # _ \<Rightarrow>
                Inr (''WHERE TRIM(c.first_name) LIKE '' @ apostrophe @ ''%'' @ name @ ''%''
                     @ apostrophe @ '' OR TRIM(c.last_name) LIKE '' @ apostrophe @ ''%'' @ name
                     @ ''%'' @ apostrophe)))"

definition customer_by_name_sql :: "config \<Rightarrow> string \<Rightarrow> int \<Rightarrow> string" where
  "customer_by_name_sql cfg where_clause limit =
     py_join newline
       ['''',
        ''        SELECT'',
        ''            c.customer_id,'',
        ''            c.first_name,'',
        ''            c.last_name,'',
        ''            c.email_addr,'',
        ''            c.country,'',
        ''            c.customer_tier,'',
        ''            c.risk_tolerance,'',
        ''            c.company_name'',
        ''        FROM '' @ SNOWFLAKE_DATABASE cfg @ ''.'' @ SNOWFLAKE_SCHEMA cfg @ ''_'' @ MARTS_SCHEMA @ ''.dim_customer c'',
        ''        '' @ where_clause,
        ''        ORDER BY c.customer_id'',
        ''        LIMIT '' @ str_int limit,
        ''        '']"

definition query_customer_by_name ::
  "config \<Rightarrow> python \<Rightarrow> string \<Rightarrow> rat \<Rightarrow> string \<Rightarrow> int \<Rightarrow> world \<Rightarrow> string \<times> world" where
  "query_customer_by_name cfg py uuid4 now customer_name limit w =
     (case customer_where_clause customer_name of
        Inl e \<Rightarrow> (''Error preparing customer search query: '' @ str_exn e, w)
      | Inr where_clause \<Rightarrow>
          (case register_pending_query uuid4 now ''query_customer_by_name''
                  (customer_by_name_sql cfg where_clause limit) w
           of (pq, w') \<Rightarrow> (pending_response py pq, w')))"

text \<open>The names of the tools in \<^verbatim>\<open>WAREHOUSE_TOOLS\<close>, in the order of the list.\<close>

definition WAREHOUSE_TOOLS :: "string list" where
  "WAREHOUSE_TOOLS =
     [''query_transactions'', ''query_asset_prices'', ''query_transaction_summary'',
      ''query_price_trends'', ''query_news_events'', ''query_customer_by_name'']"

section \<open>The agent (\<^verbatim>\<open>scripts/chatbot/chatbot.py\<close>)\<close>

subsection \<open>Messages\<close>

text \<open>
  A LangChain tool call is a dictionary with the keys \<^verbatim>\<open>name\<close>, \<^verbatim>\<open>args\<close> and \<^verbatim>\<open>id\<close>;
  the \<^verbatim>\<open>id\<close> is an \<^verbatim>\<open>Optional[str]\<close>.
\<close>

record tool_call =
  call_name :: string
  call_args :: json
  call_id :: "string option"

text \<open>The \<^verbatim>\<open>content\<close> of a message: a string, or a list of content blocks.\<close>

datatype content = Text string | Blocks "json list"

text \<open>
  The message classes. Only an \<^verbatim>\<open>AIMessage\<close> has the attribute \<^verbatim>\<open>tool_calls\<close>; a
  \<^verbatim>\<open>ToolMessage\<close> carries its content, its optional \<^verbatim>\<open>name\<close> and its \<^verbatim>\<open>tool_call_id\<close>.
\<close>

datatype message =
    HumanMessage content
  | SystemMessage content
  | AIMessage content "tool_call list"
  | ToolMessage content "string option" string

fun message_content :: "message \<Rightarrow> content" where
  "message_content (HumanMessage c) = c"
| "message_content (SystemMessage c) = c"
| "message_content (AIMessage c calls) = c"
| "message_content (ToolMessage c n i) = c"

text \<open>\<^verbatim>\<open>msg.tool_calls\<close> where the attribute exists, the empty list elsewhere.\<close>

fun tool_calls :: "message \<Rightarrow> tool_call list" where
  "tool_calls (AIMessage c calls) = calls"
| "tool_calls m = []"

subsection \<open>\<^verbatim>\<open>tools_node\<close>\<close>

text \<open>
  What a tool hands back to \<^verbatim>\<open>tool.invoke\<close>: a string, or another value, which the node
  passes through \<^verbatim>\<open>str\<close>.
\<close>

datatype tool_value = StrValue string | OtherValue json

text \<open>
  A registered tool, invoked with the arguments of the call in the process state \<open>'s\<close>:
  it raises (\<open>Inl\<close>) or returns a value, and leaves a state.
\<close>

type_synonym 's tool = "json \<Rightarrow> 's \<Rightarrow> (exn + tool_value) \<times> 's"

text \<open>
  The constructor call \<^verbatim>\<open>ToolMessage(content=..., name=..., tool_call_id=...)\<close>. The class
  declares \<^verbatim>\<open>tool_call_id: str\<close> and validates it: with \<^verbatim>\<open>None\<close> the constructor raises
  a validation error.
\<close>

definition tool_message :: "python \<Rightarrow> string \<Rightarrow> string \<Rightarrow> string option \<Rightarrow> exn + message" where
  "tool_message py text nm tid =
     (case tid of
        None \<Rightarrow> Inl (Raised (validation_error py))
      | Some i \<Rightarrow> Inr (ToolMessage (Text text) (Some nm) i))"

text \<open>
  The \<^verbatim>\<open>except Exception as e\<close> handler of the loop body: it builds the error message
  with the same \<^verbatim>\<open>tool_call["id"]\<close>; an exception raised here leaves the node.
\<close>

definition dispatch_handler :: "python \<Rightarrow> tool_call \<Rightarrow> exn \<Rightarrow> exn + message" where
  "dispatch_handler py tc e =
     tool_message py (''Error: '' @ str_exn e) (call_name tc) (call_id tc)"

text \<open>
  One iteration of the \<^verbatim>\<open>for tool_call in last_message.tool_calls\<close> loop: the message to
  append, or the exception that leaves the node, and the state after the tool ran.
\<close>

definition dispatch_tool_call ::
  "python \<Rightarrow> (string \<rightharpoonup> 's tool) \<Rightarrow> tool_call \<Rightarrow> 's \<Rightarrow> (exn + message) \<times> 's" where
  "dispatch_tool_call py tools_by_name tc s =
     (case tools_by_name (call_name tc) of
        Some t \<Rightarrow>
          (case t (call_args tc) s of
             (Inr v, s') \<Rightarrow>
               (case tool_message py (case v of StrValue r \<Rightarrow> r | OtherValue x \<Rightarrow> str_of py x)
                       (call_name tc) (call_id tc)
                of Inr m \<Rightarrow> (Inr m, s')
                 | Inl e \<Rightarrow> (dispatch_handler py tc e, s'))
           | (Inl e, s') \<Rightarrow> (dispatch_handler py tc e, s'))
      | None \<Rightarrow>
          (case tool_message py (''Tool '' @ call_name tc @ '' not found'')
                  (call_name tc) (call_id tc)
           of Inr m \<Rightarrow> (Inr m, s)
            | Inl e \<Rightarrow> (dispatch_handler py tc e, s)))"

text \<open>
  The loop: \<open>outputs\<close> grows by one message per tool call; an exception that leaves the
  loop body ends the loop and the node.
\<close>

fun dispatch_all ::
  "python \<Rightarrow> (string \<rightharpoonup> 's tool) \<Rightarrow> tool_call list \<Rightarrow> message list \<Rightarrow> 's
     \<Rightarrow> (exn + message list) \<times> 's" where
  "dispatch_all py tools_by_name [] outputs s = (Inr outputs, s)"
| "dispatch_all py tools_by_name (tc # tcs) outputs s =
     (case dispatch_tool_call py tools_by_name tc s of
        (Inr m, s') \<Rightarrow> dispatch_all py tools_by_name tcs (outputs @ [m]) s'
      | (Inl e, s') \<Rightarrow> (Inl e, s'))"

text \<open>
  The node, on the messages of the graph state: it returns the messages to append, or
  raises.
\<close>

definition tools_node ::
  "python \<Rightarrow> (string \<rightharpoonup> 's tool) \<Rightarrow> message list \<Rightarrow> 's \<Rightarrow> (exn + message list) \<times> 's" where
  "tools_node py tools_by_name messages s =
     (if messages = [] then (Inr [], s)
      else let last_message = last messages
           in if tool_calls last_message = [] then (Inr [], s)
              else dispatch_all py tools_by_name (tool_calls last_message) [] s)"

datatype route = RouteTools | RouteEnd

definition route_query :: "message list \<Rightarrow> route" where
  "route_query messages =
     (if messages = [] then RouteEnd
      else if tool_calls (last messages) \<noteq> [] then RouteTools
      else RouteEnd)"

subsection \<open>\<^verbatim>\<open>_try_parse_pending_query_payload\<close>\<close>

definition try_parse_pending_query_payload :: "python \<Rightarrow> string \<Rightarrow> json option" where
  "try_parse_pending_query_payload py payload =
     (case json_loads py payload of
        None \<Rightarrow> None
      | Some (JDict d) \<Rightarrow>
          (if map_of d ''status'' = Some (JStr ''PENDING_APPROVAL'') then
             (case map_of d ''query'' of
                Some (JDict q) \<Rightarrow> Some (JDict q)
              | _ \<Rightarrow> None)
           else None)
      | Some _ \<Rightarrow> None)"

subsection \<open>\<^verbatim>\<open>chat\<close>\<close>

text \<open>
  The compiled graph as \<^verbatim>\<open>chat\<close> uses it, for the thread of the call:
  \<^verbatim>\<open>graph.get_state(config)\<close> raises, or returns a snapshot whose \<^verbatim>\<open>values\<close> are empty
  (\<open>None\<close>) or hold the thread's messages; \<^verbatim>\<open>graph.invoke\<close> raises, or returns the
  \<^verbatim>\<open>messages\<close> of the final state.
\<close>

record graph =
  get_state :: "exn + message list option"
  invoke :: "message list \<Rightarrow> exn + message list"

text \<open>
  The dictionary \<^verbatim>\<open>chat\<close> returns. The key \<^verbatim>\<open>pending_queries\<close> is present in one of the
  three dictionaries only: \<open>None\<close> is the absent key. The field \<open>method_tag\<close> is the key
  \<^verbatim>\<open>method\<close>.
\<close>

record turn_result =
  answer :: content
  sources :: "json list"
  warehouse_tools_used :: "string list"
  rag_tools_used :: "string list"
  pending_queries :: "json list option"
  method_tag :: string

text \<open>
  The four lists that the scan of the turn's messages fills: \<^verbatim>\<open>sources\<close>,
  \<^verbatim>\<open>warehouse_tools_used\<close>, \<^verbatim>\<open>rag_tools_used\<close> and \<^verbatim>\<open>pending_queries\<close>.
\<close>

type_synonym scan = "json list \<times> string list \<times> string list \<times> json list"

text \<open>The inner loop over \<^verbatim>\<open>msg.tool_calls\<close>.\<close>

fun scan_tool_calls :: "tool_call list \<Rightarrow> string list \<times> string list \<Rightarrow> string list \<times> string list" where
  "scan_tool_calls [] acc = acc"
| "scan_tool_calls (tc # tcs) (wh_used, rag_used) =
     scan_tool_calls tcs
       (if call_name tc \<in> set WAREHOUSE_TOOLS then wh_used @ [call_name tc] else wh_used,
        if call_name tc = ''document_search'' then rag_used @ [call_name tc] else rag_used)"

text \<open>
  The loop \<^verbatim>\<open>for doc in docs[:3]\<close>, called on \<open>take 3 docs\<close>. Slicing a
  \<^verbatim>\<open>page_content\<close> that is not a string and appending \<^verbatim>\<open>"..."\<close> raises; the bare
  \<^verbatim>\<open>except: pass\<close> then ends the loop and keeps the sources appended so far.
\<close>

fun collect_sources :: "python \<Rightarrow> json list \<Rightarrow> json list \<Rightarrow> json list" where
  "collect_sources py [] srcs = srcs"
| "collect_sources py (JDict d # docs) srcs =
     (case dict_get d ''page_content'' (JStr (str_of py (JDict d))) of
        JStr s \<Rightarrow>
          collect_sources py docs
            (srcs @ [JDict [(''content'', JStr (take 200 s @ ''...'')),
                            (''metadata'', dict_get d ''metadata'' (JDict []))]])
      | _ \<Rightarrow> srcs)"
| "collect_sources py (doc # docs) srcs = collect_sources py docs srcs"

text \<open>The \<^verbatim>\<open>try\<close> block that reads the documents of a \<^verbatim>\<open>document_search\<close> result.\<close>

definition document_sources :: "python \<Rightarrow> content \<Rightarrow> json list \<Rightarrow> json list" where
  "document_sources py c srcs =
     (case c of
        Text s \<Rightarrow>
          (case json_loads py s of
             Some (JList docs) \<Rightarrow> collect_sources py (take 3 docs) srcs
           | _ \<Rightarrow> srcs)
      | Blocks docs \<Rightarrow> collect_sources py (take 3 docs) srcs)"

text \<open>The body of \<^verbatim>\<open>for msg in messages_this_turn\<close>.\<close>

definition scan_message :: "python \<Rightarrow> scan \<Rightarrow> message \<Rightarrow> scan" where
  "scan_message py sc msg =
     (case sc of (srcs, wh_used, rag_used, pending) \<Rightarrow>
        (case scan_tool_calls (tool_calls msg) (wh_used, rag_used) of (wh_used1, rag_used1) \<Rightarrow>
           (case msg of
              ToolMessage c nm tid \<Rightarrow>
                (let rag_used2 =
                       (if nm = Some ''document_search'' \<and> ''document_search'' \<notin> set rag_used1
                        then rag_used1 @ [''document_search''] else rag_used1);
                     srcs2 =
                       (if nm = Some ''document_search'' then document_sources py c srcs else srcs);
                     pending2 =
                       (case c of
                          Text s \<Rightarrow>
                            (case try_parse_pending_query_payload py s of
                               Some pq \<Rightarrow> pending @ [pq]
                             | None \<Rightarrow> pending)
                        | Blocks b \<Rightarrow> pending)
                 in (srcs2, wh_used1, rag_used2, pending2))
            | _ \<Rightarrow> (srcs, wh_used1, rag_used1, pending))))"

definition scan_messages :: "python \<Rightarrow> message list \<Rightarrow> scan" where
  "scan_messages py msgs = foldl (scan_message py) ([], [], [], []) msgs"

text \<open>\<^verbatim>\<open>answer or default\<close>: an empty string or list is false.\<close>

definition answer_or :: "content \<Rightarrow> string \<Rightarrow> content" where
  "answer_or a dflt = (if a = Text [] \<or> a = Blocks [] then Text dflt else a)"

text \<open>The dictionary of the outer \<^verbatim>\<open>except Exception as e\<close> clause.\<close>

definition error_result :: "exn \<Rightarrow> turn_result" where
  "error_result e =
     \<lparr>answer = Text (''I encountered an error: '' @ str_exn e
                     @ ''. Please try rephrasing your question.''),
      sources = [],
      warehouse_tools_used = [],
      rag_tools_used = [],
      pending_queries = None,
      method_tag = ''error''\<rparr>"

text \<open>\<^verbatim>\<open>messages_before\<close>: the number of messages the thread held before the turn.\<close>

definition messages_before :: "graph \<Rightarrow> nat" where
  "messages_before g =
     (case get_state g of
        Inl e \<Rightarrow> 0
      | Inr None \<Rightarrow> 0
      | Inr (Some ms) \<Rightarrow> length ms)"

text \<open>
  \<^verbatim>\<open>result["messages"][messages_before:] if messages_before > 0 else result["messages"]\<close>.
\<close>

definition messages_this_turn :: "graph \<Rightarrow> message list \<Rightarrow> message list" where
  "messages_this_turn g result_messages =
     (if messages_before g > 0 then drop (messages_before g) result_messages
      else result_messages)"

text \<open>
  The method: every exception raised inside the outer \<^verbatim>\<open>try\<close> ends in
  \<open>error_result\<close>; \<^verbatim>\<open>result["messages"][-1]\<close> raises \<^verbatim>\<open>IndexError\<close> on an empty list.
\<close>

definition chat :: "python \<Rightarrow> graph \<Rightarrow> string \<Rightarrow> turn_result" where
  "chat py g question =
     (case invoke g [HumanMessage (Text question)] of
        Inl e \<Rightarrow> error_result e
      | Inr result_messages \<Rightarrow>
          (if result_messages = [] then error_result IndexError
           else
             (let final_message = last result_messages;
                  ans = message_content final_message
              in case scan_messages py (messages_this_turn g result_messages) of
                   (srcs, wh_used, rag_used, pending) \<Rightarrow>
                     (if pending \<noteq> [] then
                        \<lparr>answer = answer_or ans
                           ''I can run a warehouse query to answer that. Please review and approve the SQL.'',
                         sources = srcs,
                         warehouse_tools_used = wh_used,
                         rag_tools_used = rag_used,
                         pending_queries = Some pending,
                         method_tag = ''pending_approval''\<rparr>
                      else
                        \<lparr>answer = answer_or ans ''I couldn't generate a response.'',
                         sources = srcs,
                         warehouse_tools_used = wh_used,
                         rag_tools_used = rag_used,
                         pending_queries = None,
                         method_tag = ''agent_with_tools''\<rparr>))))"

definition execute_approved_query :: "warehouse \<Rightarrow> string \<Rightarrow> world \<Rightarrow> string \<times> world" where
  "execute_approved_query wh qid w = execute_pending_query wh qid w"

definition cancel_query :: "string \<Rightarrow> world \<Rightarrow> bool \<times> world" where
  "cancel_query qid w = cancel_pending_query qid w"

section \<open>Notions used to state the properties\<close>

text \<open>
  The approval payload as an object: the status \<^verbatim>\<open>PENDING_APPROVAL\<close> and, under
  \<^verbatim>\<open>query\<close>, the identifier, the tool name, the SQL text and the creation time.
\<close>

definition approval_payload :: "string \<Rightarrow> string \<Rightarrow> string \<Rightarrow> rat \<Rightarrow> json" where
  "approval_payload qid tool sql_text created =
     JDict [(''status'', JStr ''PENDING_APPROVAL''),
            (''query'', JDict [(''query_id'', JStr qid),
                               (''tool_name'', JStr tool),
                               (''sql'', JStr sql_text),
                               (''created_at'', JFloat created)])]"

text \<open>
  A tool call was gated for approval. Its outcome \<open>res\<close> is the return value and the state
  after the call from state \<open>w\<close>; \<open>uid\<close> and \<open>now\<close> are the identifier and the time drawn
  for the call, \<open>sql_text\<close> is the query the tool built. The return value is the
  serialised approval payload with the status \<^verbatim>\<open>PENDING_APPROVAL\<close>, the identifier, the
  tool name and the stripped query text; the store has gained the record with these
  values under \<open>uid\<close> and nothing else; nothing was sent to the warehouse.
\<close>

definition approval_gated ::
  "python \<Rightarrow> string \<Rightarrow> rat \<Rightarrow> string \<Rightarrow> string \<Rightarrow> world \<Rightarrow> string \<times> world \<Rightarrow> bool" where
  "approval_gated py uid now tool sql_text w res =
     (fst res = json_dumps py (approval_payload uid tool (py_strip sql_text) now)
      \<and> PENDING_QUERIES (snd res) =
          (PENDING_QUERIES w)
            (uid \<mapsto> \<lparr>query_id = uid, tool_name = tool, sql = py_strip sql_text, created_at = now\<rparr>)
      \<and> executed (snd res) = executed w)"

text \<open>The keys of the \<^verbatim>\<open>query\<close> object of a payload, in order.\<close>

definition payload_query_keys :: "json \<Rightarrow> string list" where
  "payload_query_keys p =
     (case p of
        JDict d \<Rightarrow> (case map_of d ''query'' of Some (JDict q) \<Rightarrow> map fst q | _ \<Rightarrow> [])
      | _ \<Rightarrow> [])"


text \<open>
  The list of retrieved items that the content of a tool-result message parses to;
  \<open>None\<close> when the content is a text that \<^verbatim>\<open>json.loads\<close> rejects or reads as something
  other than a list.
\<close>

definition parsed_documents :: "python \<Rightarrow> content \<Rightarrow> json list option" where
  "parsed_documents py c =
     (case c of
        Text s \<Rightarrow> (case json_loads py s of Some (JList docs) \<Rightarrow> Some docs | _ \<Rightarrow> None)
      | Blocks docs \<Rightarrow> Some docs)"

text \<open>
  The pending queries of a result as a caller reads them, with
  \<^verbatim>\<open>result.get("pending_queries")\<close>: none where the key is absent.
\<close>

definition pending_of :: "turn_result \<Rightarrow> json list" where
  "pending_of r = (case pending_queries r of None \<Rightarrow> [] | Some p \<Rightarrow> p)"


subsection \<open>Sample collaborators\<close>

text \<open>
  Concrete stand-ins for the library and the configuration, used where a property is
  exercised on explicit inputs: a serialiser that renders any value as \<open>''payload''\<close>
  and a parser that reads every text as \<open>parsed\<close>.
\<close>

definition sample_python :: "json option \<Rightarrow> python" where
  "sample_python parsed =
     \<lparr>json_dumps = (\<lambda>j. ''payload''),
      json_loads = (\<lambda>s. parsed),
      str_of = (\<lambda>j. ''value''),
      upper = (\<lambda>s. s),
      validation_error = ''tool_call_id: Input should be a valid string''\<rparr>"

definition sample_config :: config where
  "sample_config = \<lparr>SNOWFLAKE_DATABASE = ''DB_T23'', SNOWFLAKE_SCHEMA = ''SC_T23''\<rparr>"


definition sample_reply :: "message list" where
  "sample_reply =
     [AIMessage (Text [])
        [\<lparr>call_name = ''query_news_events'', call_args = JDict [], call_id = Some ''c1''\<rparr>],
      ToolMessage (Text ''payload'') (Some ''query_news_events'') ''c1'',
      AIMessage (Text ''Please approve the query.'') []]"

definition sample_history :: "message list" where
  "sample_history =
     [HumanMessage (Text ''find the policy''),
      AIMessage (Text [])
        [\<lparr>call_name = ''document_search'', call_args = JDict [], call_id = Some ''c0''\<rparr>],
      ToolMessage (Text ''notes'') (Some ''document_search'') ''c0'',
      AIMessage (Text ''Here it is.'') []]"

definition sample_graph :: "exn + message list option \<Rightarrow> message list \<Rightarrow> graph" where
  "sample_graph st history =
     \<lparr>get_state = st, invoke = (\<lambda>msgs. Inr (history @ msgs @ sample_reply))\<rparr>"



text \<open>
  A retrieval result of four items: a document with text and metadata, a loose string, a
  document without \<^verbatim>\<open>page_content\<close>, and a fourth document.
\<close>

definition sample_documents :: json where
  "sample_documents =
     JList [JDict [(''page_content'', JStr ''alpha''), (''metadata'', JDict [(''page'', JInt 1)])],
            JStr ''loose'',
            JDict [(''title'', JStr ''beta'')],
            JDict [(''page_content'', JStr ''delta'')]]"







section \<open>Properties of the pending-query store\<close>

lemma store_inv_initial: "store_inv {} initial_world"
  by (simp add: store_inv_def initial_world_def)

lemma store_inv_register:
  assumes "store_inv U w" and "uuid4 \<notin> U"
  shows "store_inv (insert uuid4 U) (snd (register_pending_query uuid4 now tool sql_text w))"
  using assms unfolding store_inv_def register_pending_query_def Let_def
  by (auto simp: dom_def)

lemma store_inv_cancel:
  assumes "store_inv U w"
  shows "store_inv U (snd (cancel_pending_query qid w))"
  using assms unfolding store_inv_def cancel_pending_query_def pop_pending_def
  by (auto simp: dom_def split: if_splits)

lemma store_inv_execute:
  assumes "store_inv U w"
  shows "store_inv U (snd (execute_pending_query wh qid w))"
proof (cases "PENDING_QUERIES w qid")
  case None
  then show ?thesis
    using assms unfolding store_inv_def execute_pending_query_def pop_pending_def
    by (auto simp: dom_def split: if_splits)
next
  case (Some pq)
  with assms have q: "query_id pq = qid" and u: "qid \<in> U"
    and e: "qid \<notin> query_id ` set (executed w)"
    unfolding store_inv_def by (auto simp: dom_def) 
  show ?thesis
    using assms Some q e u
    unfolding store_inv_def execute_pending_query_def pop_pending_def
    by (auto simp: dom_def split: if_splits db_outcome.splits)
qed

lemma store_inv_step:
  assumes "store_inv U w" and "set (staged_ids [c]) \<inter> U = {}"
  shows "store_inv (U \<union> set (staged_ids [c])) (store_step c w)"
  using assms
  by (cases c) (simp_all add: store_inv_register store_inv_cancel store_inv_execute)

lemma store_inv_run:
  assumes "store_inv U w" and "distinct (staged_ids cs)" and "set (staged_ids cs) \<inter> U = {}"
  shows "store_inv (U \<union> set (staged_ids cs)) (run_calls cs w)"
  using assms
proof (induction cs arbitrary: U w)
  case Nil
  then show ?case by simp
next
  case (Cons c cs)
  have step: "store_inv (U \<union> set (staged_ids [c])) (store_step c w)"
    using Cons.prems by (intro store_inv_step) (cases c; auto)+
  have d: "distinct (staged_ids cs)" using Cons.prems(2) by (cases c) auto
  have f: "set (staged_ids cs) \<inter> (U \<union> set (staged_ids [c])) = {}"
    using Cons.prems(2,3) by (cases c) auto
  have "store_inv (U \<union> set (staged_ids [c]) \<union> set (staged_ids cs)) (run_calls cs (store_step c w))"
    by (rule Cons.IH [OF step d f])
  moreover have "U \<union> set (staged_ids [c]) \<union> set (staged_ids cs) = U \<union> set (staged_ids (c # cs))"
    by (cases c) auto
  ultimately show ?case by simp
qed

lemma filter_query_id_le_one:
  "distinct (map query_id xs) \<Longrightarrow> length (filter (\<lambda>pq. query_id pq = qid) xs) \<le> 1"
  by (induction xs) (auto simp: filter_empty_conv image_iff)

lemma executions_le_one:
  assumes "distinct (map query_id (executed w))"
  shows "executions qid w \<le> 1"
  using filter_query_id_le_one [OF assms] by (simp add: executions_def)

lemma at_most_once_from_start:
  assumes "distinct (staged_ids cs)"
  shows "executions qid (run_calls cs initial_world) \<le> 1"
proof -
  have "store_inv ({} \<union> set (staged_ids cs)) (run_calls cs initial_world)"
    using assms by (intro store_inv_run store_inv_initial) auto
  then have "distinct (map query_id (executed (run_calls cs initial_world)))"
    by (simp add: store_inv_def)
  then show ?thesis by (rule executions_le_one)
qed

lemma run_calls_append: "run_calls (xs @ ys) w = run_calls ys (run_calls xs w)"
  by (induction xs arbitrary: w) auto

lemma absent_stays_absent:
  assumes "PENDING_QUERIES w qid = None" and "qid \<notin> set (staged_ids cs)"
  shows "PENDING_QUERIES (run_calls cs w) qid = None"
  using assms
proof (induction cs arbitrary: w)
  case Nil
  then show ?case by simp
next
  case (Cons c cs)
  have "PENDING_QUERIES (store_step c w) qid = None"
    using Cons.prems
    by (cases c)
       (auto simp: register_pending_query_def Let_def execute_pending_query_def
          cancel_pending_query_def pop_pending_def split: option.splits db_outcome.splits)
  moreover have "qid \<notin> set (staged_ids cs)" using Cons.prems(2) by (cases c) auto
  ultimately show ?case using Cons.IH by simp
qed

lemma consumed_is_absent:
  assumes "c = Execute wh qid \<or> c = Cancel qid"
  shows "PENDING_QUERIES (store_step c w) qid = None"
  using assms
  by (auto simp: execute_pending_query_def cancel_pending_query_def pop_pending_def
      split: option.splits db_outcome.splits)

lemma execute_absent:
  assumes "PENDING_QUERIES w qid = None"
  shows "execute_pending_query wh qid w = (not_found_message, w)"
proof -
  have "(PENDING_QUERIES w)(qid := None) = PENDING_QUERIES w"
    using assms by (simp add: fun_upd_idem)
  then show ?thesis using assms by (simp add: execute_pending_query_def pop_pending_def)
qed

lemma cancel_absent:
  assumes "PENDING_QUERIES w qid = None"
  shows "cancel_pending_query qid w = (False, w)"
proof -
  have "(PENDING_QUERIES w)(qid := None) = PENDING_QUERIES w"
    using assms by (simp add: fun_upd_idem)
  then show ?thesis using assms by (simp add: cancel_pending_query_def pop_pending_def)
qed

lemma staged_ids_append: "staged_ids (xs @ ys) = staged_ids xs @ staged_ids ys"
  by (induction xs rule: staged_ids.induct) auto

text \<open>
  Claim C1. In a run of the process from its start in which \<^verbatim>\<open>uuid4\<close> never draws the
  same identifier twice, once a call of \<^verbatim>\<open>execute_pending_query\<close> or
  \<^verbatim>\<open>cancel_pending_query\<close> has removed the record of \<open>qid\<close>, then after any further
  calls the record is still absent, a further \<^verbatim>\<open>execute_pending_query\<close> on \<open>qid\<close>
  returns the not-found message and a further \<^verbatim>\<open>cancel_pending_query\<close> returns
  \<^verbatim>\<open>False\<close>, both leaving the process state (store and warehouse log) as it was, and the
  SQL of \<open>qid\<close> has reached the warehouse at most once.
\<close>

theorem consumed_query_never_runs_again:
  assumes fresh: "distinct (staged_ids (before @ c # later))"
    and consume: "c = Execute wh qid \<or> c = Cancel qid"
    and staged: "PENDING_QUERIES (run_calls before initial_world) qid \<noteq> None"
  shows "let w = run_calls (before @ c # later) initial_world
         in PENDING_QUERIES w qid = None
            \<and> execute_pending_query wh' qid w = (not_found_message, w)
            \<and> cancel_pending_query qid w = (False, w)
            \<and> executions qid w \<le> 1"
proof -
  let ?pre = "run_calls before initial_world"
  let ?fin = "run_calls (before @ c # later) initial_world"
  have ids: "staged_ids (before @ c # later) = staged_ids before @ staged_ids later"
    using consume by (auto simp: staged_ids_append)
  have "store_inv ({} \<union> set (staged_ids before)) ?pre"
    using fresh ids by (intro store_inv_run store_inv_initial) auto
  then have "dom (PENDING_QUERIES ?pre) \<subseteq> set (staged_ids before)"
    by (simp add: store_inv_def)
  with staged have "qid \<in> set (staged_ids before)" by (auto simp: dom_def)
  with fresh ids have later: "qid \<notin> set (staged_ids later)" by auto
  have w: "?fin = run_calls later (store_step c ?pre)"
    by (simp add: run_calls_append)
  have absent: "PENDING_QUERIES ?fin qid = None"
    unfolding w by (rule absent_stays_absent [OF consumed_is_absent [OF consume] later])
  show ?thesis
    using absent execute_absent [OF absent] cancel_absent [OF absent]
      at_most_once_from_start [OF fresh]
    by (simp add: Let_def)
qed

text \<open>
  Claim C4. For a pending \<open>qid\<close>, the first \<^verbatim>\<open>cancel_pending_query\<close> returns
  \<^verbatim>\<open>True\<close> and the second \<^verbatim>\<open>False\<close>; \<^verbatim>\<open>execute_pending_query\<close> after the cancel
  returns the not-found message, and nothing has been sent to the warehouse.
\<close>

theorem cancel_twice_then_execute:
  assumes "PENDING_QUERIES w qid \<noteq> None"
  shows "case cancel_pending_query qid w of (first, w1) \<Rightarrow>
           first = True
           \<and> fst (cancel_pending_query qid w1) = False
           \<and> execute_pending_query wh qid w1 = (not_found_message, w1)
           \<and> executed w1 = executed w"
proof -
  obtain first w1 where c: "cancel_pending_query qid w = (first, w1)"
    by (cases "cancel_pending_query qid w")
  have f: "first = True" and e: "executed w1 = executed w" and a: "PENDING_QUERIES w1 qid = None"
    using c assms by (auto simp: cancel_pending_query_def pop_pending_def)
  show ?thesis
    using f e cancel_absent [OF a] execute_absent [OF a] by (simp add: c)
qed

theorem consumed_query_never_runs_again_witness:
  "distinct (staged_ids ([Stage ''q1'' 5 ''query_news_events'' ''SELECT 1'']
       @ Execute \<lparr>snowflake = (\<lambda>s. Fetched [''n''] [[JInt 1]]), to_json = (\<lambda>c r. ''rows'')\<rparr> ''q1''
       # [Execute \<lparr>snowflake = (\<lambda>s. Fetched [''n''] [[JInt 1]]), to_json = (\<lambda>c r. ''rows'')\<rparr> ''q1'',
          Cancel ''q1'']))
   \<and> PENDING_QUERIES (run_calls [Stage ''q1'' 5 ''query_news_events'' ''SELECT 1''] initial_world) ''q1'' \<noteq> None
   \<and> (let w = run_calls ([Stage ''q1'' 5 ''query_news_events'' ''SELECT 1'']
       @ Execute \<lparr>snowflake = (\<lambda>s. Fetched [''n''] [[JInt 1]]), to_json = (\<lambda>c r. ''rows'')\<rparr> ''q1''
       # [Execute \<lparr>snowflake = (\<lambda>s. Fetched [''n''] [[JInt 1]]), to_json = (\<lambda>c r. ''rows'')\<rparr> ''q1'',
          Cancel ''q1'']) initial_world
      in PENDING_QUERIES w ''q1'' = None
         \<and> execute_pending_query \<lparr>snowflake = (\<lambda>s. ConnectRaises ''down''), to_json = (\<lambda>c r. ''rows'')\<rparr> ''q1'' w
             = (not_found_message, w)
         \<and> cancel_pending_query ''q1'' w = (False, w)
         \<and> executions ''q1'' w \<le> 1)"
proof -
  have h1: "distinct (staged_ids ([Stage ''q1'' 5 ''query_news_events'' ''SELECT 1'']
       @ Execute \<lparr>snowflake = (\<lambda>s. Fetched [''n''] [[JInt 1]]), to_json = (\<lambda>c r. ''rows'')\<rparr> ''q1''
       # [Execute \<lparr>snowflake = (\<lambda>s. Fetched [''n''] [[JInt 1]]), to_json = (\<lambda>c r. ''rows'')\<rparr> ''q1'',
          Cancel ''q1'']))"
    by simp
  have h3: "PENDING_QUERIES (run_calls [Stage ''q1'' 5 ''query_news_events'' ''SELECT 1''] initial_world) ''q1'' \<noteq> None"
    by (simp add: register_pending_query_def initial_world_def Let_def)
  show ?thesis
    using h1 h3 consumed_query_never_runs_again [OF h1 _ h3,
        of "\<lparr>snowflake = (\<lambda>s. Fetched [''n''] [[JInt 1]]), to_json = (\<lambda>c r. ''rows'')\<rparr>"  
           "\<lparr>snowflake = (\<lambda>s. ConnectRaises ''down''), to_json = (\<lambda>c r. ''rows'')\<rparr>"]
    by blast
qed

theorem cancel_twice_then_execute_witness:
  "PENDING_QUERIES (snd (register_pending_query ''q1'' 5 ''query_news_events'' ''SELECT 1'' initial_world)) ''q1'' \<noteq> None
   \<and> (case cancel_pending_query ''q1'' (snd (register_pending_query ''q1'' 5 ''query_news_events'' ''SELECT 1'' initial_world))
       of (first, w1) \<Rightarrow>
           first = True
           \<and> fst (cancel_pending_query ''q1'' w1) = False
           \<and> execute_pending_query \<lparr>snowflake = (\<lambda>s. Fetched [''n''] [[JInt 1]]), to_json = (\<lambda>c r. ''rows'')\<rparr> ''q1'' w1
               = (not_found_message, w1)
           \<and> executed w1 = executed (snd (register_pending_query ''q1'' 5 ''query_news_events'' ''SELECT 1'' initial_world)))"
proof -
  have h: "PENDING_QUERIES (snd (register_pending_query ''q1'' 5 ''query_news_events'' ''SELECT 1'' initial_world)) ''q1'' \<noteq> None"
    by (simp add: register_pending_query_def initial_world_def Let_def)
  show ?thesis
    using h cancel_twice_then_execute [OF h,
        where wh = "\<lparr>snowflake = (\<lambda>s. Fetched [''n''] [[JInt 1]]), to_json = (\<lambda>c r. ''rows'')\<rparr>"]
    by (rule conjI)
qed

section \<open>Properties of the warehouse tools\<close>

lemma register_gated:
  "approval_gated py uid now tool sql_text w
     (case register_pending_query uid now tool sql_text w of
        (pq, w') \<Rightarrow> (pending_response py pq, w'))"
  by (simp add: approval_gated_def register_pending_query_def Let_def pending_response_def
        pending_payload_def asdict_def approval_payload_def)

lemma transactions_gated:
  "transactions_conditions py customer_id customer_name asset_symbol transaction_type = Inr conditions
      \<Longrightarrow> approval_gated py uid now ''query_transactions'' (transactions_sql cfg conditions limit) w
            (query_transactions cfg py uid now customer_id customer_name asset_symbol
               transaction_type limit w)"
  unfolding query_transactions_def by (simp only: sum.case register_gated)

lemma asset_prices_gated:
  "approval_gated py uid now ''query_asset_prices''
        (asset_prices_sql cfg asset_symbol asset_type days limit) w
        (query_asset_prices cfg py uid now asset_symbol asset_type days limit w)"
  unfolding query_asset_prices_def by (rule register_gated)

lemma transaction_summary_gated:
  "group_by \<in> set valid_groups
      \<Longrightarrow> approval_gated py uid now ''query_transaction_summary''
            (transaction_summary_sql cfg group_by limit) w
            (query_transaction_summary cfg py uid now group_by limit w)"
  unfolding query_transaction_summary_def
  by (simp only: not_True_eq_False if_False register_gated)

lemma price_trends_gated:
  "approval_gated py uid now ''query_price_trends'' (price_trends_sql cfg symbol days) w
        (query_price_trends cfg py uid now symbol days w)"
  unfolding query_price_trends_def by (rule register_gated)

lemma news_events_gated:
  "approval_gated py uid now ''query_news_events'' (news_events_sql cfg asset_symbol limit) w
        (query_news_events cfg py uid now asset_symbol limit w)"
  unfolding query_news_events_def by (rule register_gated)

lemma customer_by_name_gated:
  "customer_where_clause name = Inr where_clause
      \<Longrightarrow> approval_gated py uid now ''query_customer_by_name''
            (customer_by_name_sql cfg where_clause limit) w
            (query_customer_by_name cfg py uid now name limit w)"
  unfolding query_customer_by_name_def by (simp only: sum.case register_gated)

text \<open>
  Claim C2. Each of the six warehouse tools, called with arguments from which its query
  is built without an exception, returns the serialised object with the status
  \<^verbatim>\<open>PENDING_APPROVAL\<close> and, under \<^verbatim>\<open>query\<close>, the identifier drawn for the call, the name of
  the tool, the stripped text of the query it built and the time of the call; the store
  gains the record with these values under that identifier and nothing else, and nothing
  is sent to the warehouse.
\<close>

theorem privileged_tools_only_stage:
  "(transactions_conditions py customer_id customer_name asset_symbol transaction_type = Inr conditions
      \<longrightarrow> approval_gated py uid now ''query_transactions'' (transactions_sql cfg conditions limit) w
            (query_transactions cfg py uid now customer_id customer_name asset_symbol
               transaction_type limit w))
   \<and> approval_gated py uid now ''query_asset_prices''
        (asset_prices_sql cfg asset_symbol asset_type days limit) w
        (query_asset_prices cfg py uid now asset_symbol asset_type days limit w)
   \<and> (group_by \<in> set valid_groups
      \<longrightarrow> approval_gated py uid now ''query_transaction_summary''
            (transaction_summary_sql cfg group_by limit) w
            (query_transaction_summary cfg py uid now group_by limit w))
   \<and> approval_gated py uid now ''query_price_trends'' (price_trends_sql cfg symbol days) w
        (query_price_trends cfg py uid now symbol days w)
   \<and> approval_gated py uid now ''query_news_events'' (news_events_sql cfg asset_symbol limit) w
        (query_news_events cfg py uid now asset_symbol limit w)
   \<and> (customer_where_clause name = Inr where_clause
      \<longrightarrow> approval_gated py uid now ''query_customer_by_name''
            (customer_by_name_sql cfg where_clause limit) w
            (query_customer_by_name cfg py uid now name limit w))"
proof (intro conjI impI)
  assume "transactions_conditions py customer_id customer_name asset_symbol transaction_type = Inr conditions"
  then show "approval_gated py uid now ''query_transactions'' (transactions_sql cfg conditions limit) w
            (query_transactions cfg py uid now customer_id customer_name asset_symbol
               transaction_type limit w)"
    by (rule transactions_gated)
next
  show "approval_gated py uid now ''query_asset_prices''
        (asset_prices_sql cfg asset_symbol asset_type days limit) w
        (query_asset_prices cfg py uid now asset_symbol asset_type days limit w)"
    by (rule asset_prices_gated)
next
  assume "group_by \<in> set valid_groups"
  then show "approval_gated py uid now ''query_transaction_summary''
            (transaction_summary_sql cfg group_by limit) w
            (query_transaction_summary cfg py uid now group_by limit w)"
    by (rule transaction_summary_gated)
next
  show "approval_gated py uid now ''query_price_trends'' (price_trends_sql cfg symbol days) w
        (query_price_trends cfg py uid now symbol days w)"
    by (rule price_trends_gated)
next
  show "approval_gated py uid now ''query_news_events'' (news_events_sql cfg asset_symbol limit) w
        (query_news_events cfg py uid now asset_symbol limit w)"
    by (rule news_events_gated)
next
  assume "customer_where_clause name = Inr where_clause"
  then show "approval_gated py uid now ''query_customer_by_name''
            (customer_by_name_sql cfg where_clause limit) w
            (query_customer_by_name cfg py uid now name limit w)"
    by (rule customer_by_name_gated)
qed

theorem privileged_tools_only_stage_witness:
  "transactions_conditions (sample_python None) None (Some ''John Doe'') (Some ''BTC'') (Some ''buy'')
     = Inr [''TRIM(c.first_name) ILIKE '' @ apostrophe @ ''%John%'' @ apostrophe
              @ '' AND TRIM(c.last_name) ILIKE '' @ apostrophe @ ''%Doe%'' @ apostrophe,
            ''h.asset_symbol = '' @ apostrophe @ ''BTC'' @ apostrophe,
            ''t.transaction_type = '' @ apostrophe @ ''buy'' @ apostrophe]
   \<and> ''country'' \<in> set valid_groups
   \<and> customer_where_clause ''Ada''
       = Inr (''WHERE TRIM(c.first_name) LIKE '' @ apostrophe @ ''%Ada%'' @ apostrophe
              @ '' OR TRIM(c.last_name) LIKE '' @ apostrophe @ ''%Ada%'' @ apostrophe)
   \<and> approval_gated (sample_python None) ''q1'' 5 ''query_transactions''
        (transactions_sql sample_config
           [''TRIM(c.first_name) ILIKE '' @ apostrophe @ ''%John%'' @ apostrophe
              @ '' AND TRIM(c.last_name) ILIKE '' @ apostrophe @ ''%Doe%'' @ apostrophe,
            ''h.asset_symbol = '' @ apostrophe @ ''BTC'' @ apostrophe,
            ''t.transaction_type = '' @ apostrophe @ ''buy'' @ apostrophe] 10)
        initial_world
        (query_transactions sample_config (sample_python None) ''q1'' 5 None (Some ''John Doe'')
           (Some ''BTC'') (Some ''buy'') 10 initial_world)
   \<and> approval_gated (sample_python None) ''q1'' 5 ''query_asset_prices''
        (asset_prices_sql sample_config (Some ''BTC'') None 30 10) initial_world
        (query_asset_prices sample_config (sample_python None) ''q1'' 5 (Some ''BTC'') None 30 10
           initial_world)
   \<and> approval_gated (sample_python None) ''q1'' 5 ''query_transaction_summary''
        (transaction_summary_sql sample_config ''country'' 10) initial_world
        (query_transaction_summary sample_config (sample_python None) ''q1'' 5 ''country'' 10
           initial_world)
   \<and> approval_gated (sample_python None) ''q1'' 5 ''query_price_trends''
        (price_trends_sql sample_config ''ETH'' 30) initial_world
        (query_price_trends sample_config (sample_python None) ''q1'' 5 ''ETH'' 30 initial_world)
   \<and> approval_gated (sample_python None) ''q1'' 5 ''query_news_events''
        (news_events_sql sample_config (Some ''BTC'') 10) initial_world
        (query_news_events sample_config (sample_python None) ''q1'' 5 (Some ''BTC'') 10
           initial_world)
   \<and> approval_gated (sample_python None) ''q1'' 5 ''query_customer_by_name''
        (customer_by_name_sql sample_config
           (''WHERE TRIM(c.first_name) LIKE '' @ apostrophe @ ''%Ada%'' @ apostrophe
              @ '' OR TRIM(c.last_name) LIKE '' @ apostrophe @ ''%Ada%'' @ apostrophe) 10)
        initial_world
        (query_customer_by_name sample_config (sample_python None) ''q1'' 5 ''Ada'' 10
           initial_world)
   \<and> fst (query_price_trends sample_config (sample_python None) ''q1'' 5 ''ETH'' 30 initial_world)
       = ''payload''
   \<and> map_option query_id
        (PENDING_QUERIES
           (snd (query_price_trends sample_config (sample_python None) ''q1'' 5 ''ETH'' 30
                   initial_world)) ''q1'')
       = Some ''q1''"
proof -
  have h1: "transactions_conditions (sample_python None) None (Some ''John Doe'') (Some ''BTC'') (Some ''buy'')
     = Inr [''TRIM(c.first_name) ILIKE '' @ apostrophe @ ''%John%'' @ apostrophe
              @ '' AND TRIM(c.last_name) ILIKE '' @ apostrophe @ ''%Doe%'' @ apostrophe,
            ''h.asset_symbol = '' @ apostrophe @ ''BTC'' @ apostrophe,
            ''t.transaction_type = '' @ apostrophe @ ''buy'' @ apostrophe]"
    by (simp add: transactions_conditions_def transactions_name_condition_def truthy_def
          text_of_def py_split_def py_strip_def isspace_def Let_def sample_python_def)
  have h2: "''country'' \<in> set valid_groups"
    by (simp add: valid_groups_def)
  have h3: "customer_where_clause ''Ada''
       = Inr (''WHERE TRIM(c.first_name) LIKE '' @ apostrophe @ ''%Ada%'' @ apostrophe
              @ '' OR TRIM(c.last_name) LIKE '' @ apostrophe @ ''%Ada%'' @ apostrophe)"
    by (simp add: customer_where_clause_def py_split_def py_strip_def isspace_def Let_def)
  note gated = privileged_tools_only_stage [where py = "sample_python None" and cfg = sample_config
      and uid = "''q1''" and now = 5 and w = initial_world and customer_id = None
      and customer_name = "Some ''John Doe''" and asset_symbol = "Some ''BTC''"
      and transaction_type = "Some ''buy''" and limit = 10 and asset_type = None and days = 30
      and group_by = "''country''" and symbol = "''ETH''" and name = "''Ada''"]
  note c1 = gated [THEN conjunct1, THEN mp, OF h1]
  note c2 = gated [THEN conjunct2, THEN conjunct1]
  note c3 = gated [THEN conjunct2, THEN conjunct2, THEN conjunct1, THEN mp, OF h2]
  note c4 = gated [THEN conjunct2, THEN conjunct2, THEN conjunct2, THEN conjunct1]
  note c5 = gated [THEN conjunct2, THEN conjunct2, THEN conjunct2, THEN conjunct2, THEN conjunct1]
  note c6 = gated [THEN conjunct2, THEN conjunct2, THEN conjunct2, THEN conjunct2, THEN conjunct2,
      THEN mp, OF h3]
  have r: "fst (query_price_trends sample_config (sample_python None) ''q1'' 5 ''ETH'' 30 initial_world)
             = ''payload''"
    using c4 by (simp add: approval_gated_def sample_python_def)
  have q: "map_option query_id
        (PENDING_QUERIES
           (snd (query_price_trends sample_config (sample_python None) ''q1'' 5 ''ETH'' 30
                   initial_world)) ''q1'')
       = Some ''q1''"
    using c4 by (simp add: approval_gated_def)
  show ?thesis
    by (intro conjI) (rule h1 h2 h3 c1 c2 c3 c4 c5 c6 r q)+
qed

text \<open>
  Claim C10. For a \<^verbatim>\<open>group_by\<close> outside the four valid values,
  \<^verbatim>\<open>query_transaction_summary\<close> returns the \<^verbatim>\<open>Invalid group_by\<close> message that lists the
  valid values, and the process state (the pending-query store included) is unchanged.
\<close>

theorem invalid_group_by_stages_nothing:
  assumes "group_by \<notin> {''asset_symbol'', ''customer_tier'', ''country'', ''transaction_type''}"
  shows "query_transaction_summary cfg py uid now group_by limit w =
           (''Invalid group_by. Must be one of: asset_symbol, customer_tier, country, transaction_type'', w)"
  using assms by (simp add: query_transaction_summary_def valid_groups_def)

theorem invalid_group_by_stages_nothing_witness:
  "''region'' \<notin> {''asset_symbol'', ''customer_tier'', ''country'', ''transaction_type''}
   \<and> query_transaction_summary sample_config (sample_python None) ''q1'' 5 ''region'' 20 initial_world =
           (''Invalid group_by. Must be one of: asset_symbol, customer_tier, country, transaction_type'',
            initial_world)"
proof -
  have h: "''region'' \<notin> {''asset_symbol'', ''customer_tier'', ''country'', ''transaction_type''}"
    by simp
  show ?thesis by (rule conjI [OF h invalid_group_by_stages_nothing [OF h]])
qed

section \<open>Properties of the approval payload\<close>

text \<open>
  The \<^verbatim>\<open>query\<close> object of a payload has a fourth field, \<^verbatim>\<open>created_at\<close>.
\<close>

theorem pending_payload_three_fields_counterexample:
  "''created_at'' \<in> set (payload_query_keys (pending_payload
       \<lparr>query_id = ''q1'', tool_name = ''query_news_events'', sql = ''SELECT 1'', created_at = 5\<rparr>))
   \<and> payload_query_keys (pending_payload
       \<lparr>query_id = ''q1'', tool_name = ''query_news_events'', sql = ''SELECT 1'', created_at = 5\<rparr>)
     \<noteq> [''query_id'', ''tool_name'', ''sql'']"
  by (simp add: payload_query_keys_def pending_payload_def asdict_def)

text \<open>
  Claim C3, as the code has it. The payload a privileged tool returns is the serialised
  object with the key \<^verbatim>\<open>status\<close> set to \<^verbatim>\<open>PENDING_APPROVAL\<close> and the key \<^verbatim>\<open>query\<close>
  holding an object with the four fields of the dataclass: \<^verbatim>\<open>query_id\<close>, \<^verbatim>\<open>tool_name\<close>,
  \<^verbatim>\<open>sql\<close> (strings) and \<^verbatim>\<open>created_at\<close> (a number). Where \<^verbatim>\<open>json.loads\<close> reads the
  payload back, the detector of the turn post-processor recognises it and returns that
  \<^verbatim>\<open>query\<close> object.
\<close>

theorem pending_payload_shape:
  "pending_response py pq =
     json_dumps py
       (JDict [(''status'', JStr ''PENDING_APPROVAL''),
               (''query'', JDict [(''query_id'', JStr (query_id pq)),
                                  (''tool_name'', JStr (tool_name pq)),
                                  (''sql'', JStr (sql pq)),
                                  (''created_at'', JFloat (created_at pq))])])
   \<and> payload_query_keys (pending_payload pq) = [''query_id'', ''tool_name'', ''sql'', ''created_at'']
   \<and> (json_loads py (pending_response py pq) = Some (pending_payload pq)
        \<longrightarrow> try_parse_pending_query_payload py (pending_response py pq) = Some (asdict pq))"
proof (intro conjI impI)
  show "pending_response py pq =
     json_dumps py
       (JDict [(''status'', JStr ''PENDING_APPROVAL''),
               (''query'', JDict [(''query_id'', JStr (query_id pq)),
                                  (''tool_name'', JStr (tool_name pq)),
                                  (''sql'', JStr (sql pq)),
                                  (''created_at'', JFloat (created_at pq))])])"
    by (simp add: pending_response_def pending_payload_def asdict_def)
next
  show "payload_query_keys (pending_payload pq) = [''query_id'', ''tool_name'', ''sql'', ''created_at'']"
    by (simp add: payload_query_keys_def pending_payload_def asdict_def)
next
  assume "json_loads py (pending_response py pq) = Some (pending_payload pq)"
  then show "try_parse_pending_query_payload py (pending_response py pq) = Some (asdict pq)"
    by (simp add: try_parse_pending_query_payload_def pending_payload_def asdict_def)
qed

theorem pending_payload_shape_witness:
  "json_loads (sample_python (Some (pending_payload
        \<lparr>query_id = ''q1'', tool_name = ''query_news_events'', sql = ''SELECT 1'', created_at = 5\<rparr>)))
      (pending_response (sample_python (Some (pending_payload
        \<lparr>query_id = ''q1'', tool_name = ''query_news_events'', sql = ''SELECT 1'', created_at = 5\<rparr>)))
        \<lparr>query_id = ''q1'', tool_name = ''query_news_events'', sql = ''SELECT 1'', created_at = 5\<rparr>)
     = Some (pending_payload
        \<lparr>query_id = ''q1'', tool_name = ''query_news_events'', sql = ''SELECT 1'', created_at = 5\<rparr>)
   \<and> try_parse_pending_query_payload (sample_python (Some (pending_payload
        \<lparr>query_id = ''q1'', tool_name = ''query_news_events'', sql = ''SELECT 1'', created_at = 5\<rparr>)))
      (pending_response (sample_python (Some (pending_payload
        \<lparr>query_id = ''q1'', tool_name = ''query_news_events'', sql = ''SELECT 1'', created_at = 5\<rparr>)))
        \<lparr>query_id = ''q1'', tool_name = ''query_news_events'', sql = ''SELECT 1'', created_at = 5\<rparr>)
     = Some (asdict
        \<lparr>query_id = ''q1'', tool_name = ''query_news_events'', sql = ''SELECT 1'', created_at = 5\<rparr>)"
proof -
  let ?pq = "\<lparr>query_id = ''q1'', tool_name = ''query_news_events'', sql = ''SELECT 1'', created_at = 5\<rparr>"
  let ?py = "sample_python (Some (pending_payload ?pq))"
  have h: "json_loads ?py (pending_response ?py ?pq) = Some (pending_payload ?pq)"
    by (simp add: sample_python_def)
  note shape = pending_payload_shape [where py = ?py and pq = ?pq]
  show ?thesis
    by (rule conjI [OF h shape [THEN conjunct2, THEN conjunct2, THEN mp, OF h]])
qed

section \<open>Properties of \<^verbatim>\<open>chat\<close>\<close>

text \<open>
  Claim C8. When the graph invocation raises, or returns no message so that reading the
  final message raises, \<^verbatim>\<open>chat\<close> returns a result: its \<^verbatim>\<open>method\<close> is \<^verbatim>\<open>error\<close>, its
  answer is a message built from the exception text, its \<^verbatim>\<open>sources\<close>,
  \<^verbatim>\<open>warehouse_tools_used\<close> and \<^verbatim>\<open>rag_tools_used\<close> are empty, and a caller reading
  \<^verbatim>\<open>pending_queries\<close> finds none.
\<close>

theorem chat_error_result:
  "(invoke g [HumanMessage (Text question)] = Inl e
      \<or> invoke g [HumanMessage (Text question)] = Inr [] \<and> e = IndexError)
   \<longrightarrow> method_tag (chat py g question) = ''error''
       \<and> answer (chat py g question)
           = Text (''I encountered an error: '' @ str_exn e
                   @ ''. Please try rephrasing your question.'')
       \<and> sources (chat py g question) = []
       \<and> warehouse_tools_used (chat py g question) = []
       \<and> rag_tools_used (chat py g question) = []
       \<and> pending_of (chat py g question) = []"
  by (auto simp: chat_def error_result_def pending_of_def)

theorem chat_error_result_witness:
  "invoke \<lparr>get_state = Inr None, invoke = (\<lambda>msgs. Inl (Raised ''backend unavailable''))\<rparr>
      [HumanMessage (Text ''hello'')] = Inl (Raised ''backend unavailable'')
   \<and> method_tag (chat (sample_python None)
        \<lparr>get_state = Inr None, invoke = (\<lambda>msgs. Inl (Raised ''backend unavailable''))\<rparr>
        ''hello'') = ''error''
   \<and> answer (chat (sample_python None)
        \<lparr>get_state = Inr None, invoke = (\<lambda>msgs. Inl (Raised ''backend unavailable''))\<rparr>
        ''hello'')
       = Text (''I encountered an error: '' @ str_exn (Raised ''backend unavailable'')
               @ ''. Please try rephrasing your question.'')
   \<and> sources (chat (sample_python None)
        \<lparr>get_state = Inr None, invoke = (\<lambda>msgs. Inl (Raised ''backend unavailable''))\<rparr>
        ''hello'') = []
   \<and> warehouse_tools_used (chat (sample_python None)
        \<lparr>get_state = Inr None, invoke = (\<lambda>msgs. Inl (Raised ''backend unavailable''))\<rparr>
        ''hello'') = []
   \<and> rag_tools_used (chat (sample_python None)
        \<lparr>get_state = Inr None, invoke = (\<lambda>msgs. Inl (Raised ''backend unavailable''))\<rparr>
        ''hello'') = []
   \<and> pending_of (chat (sample_python None)
        \<lparr>get_state = Inr None, invoke = (\<lambda>msgs. Inl (Raised ''backend unavailable''))\<rparr>
        ''hello'') = []
   \<and> invoke \<lparr>get_state = Inr None, invoke = (\<lambda>msgs. Inr [])\<rparr> [HumanMessage (Text ''hello'')]
       = Inr []
   \<and> method_tag (chat (sample_python None)
        \<lparr>get_state = Inr None, invoke = (\<lambda>msgs. Inr [])\<rparr> ''hello'') = ''error''"
proof -
  let ?g = "\<lparr>get_state = Inr None, invoke = (\<lambda>msgs. Inl (Raised ''backend unavailable''))\<rparr>"
  let ?k = "\<lparr>get_state = Inr None, invoke = (\<lambda>msgs. Inr [])\<rparr> :: graph"
  have h: "invoke ?g [HumanMessage (Text ''hello'')] = Inl (Raised ''backend unavailable'')"
    by simp
  have k: "invoke ?k [HumanMessage (Text ''hello'')] = Inr []"
    by simp
  have k': "invoke ?k [HumanMessage (Text ''hello'')] = Inr [] \<and> IndexError = IndexError"
    using k by simp
  note t = chat_error_result [where py = "sample_python None", THEN mp, OF disjI1, OF h]
  note u = chat_error_result [where py = "sample_python None" and e = IndexError,
      THEN mp, OF disjI2, OF k']
  show ?thesis
    by (rule conjI [OF h conjI [OF t [THEN conjunct1]
          conjI [OF t [THEN conjunct2, THEN conjunct1]
          conjI [OF t [THEN conjunct2, THEN conjunct2, THEN conjunct1]
          conjI [OF t [THEN conjunct2, THEN conjunct2, THEN conjunct2, THEN conjunct1]
          conjI [OF t [THEN conjunct2, THEN conjunct2, THEN conjunct2, THEN conjunct2, THEN conjunct1]
          conjI [OF t [THEN conjunct2, THEN conjunct2, THEN conjunct2, THEN conjunct2, THEN conjunct2]
          conjI [OF k u [THEN conjunct1]]]]]]]]])
qed





lemma chat_completed:
  assumes "invoke g [HumanMessage (Text question)] = Inr result_messages"
    and "result_messages \<noteq> []"
    and "scan_messages py (messages_this_turn g result_messages) = (srcs, wh, rag, pend)"
  shows "sources (chat py g question) = srcs"
    and "warehouse_tools_used (chat py g question) = wh"
    and "rag_tools_used (chat py g question) = rag"
    and "pending_queries (chat py g question) = (if pend \<noteq> [] then Some pend else None)"
    and "method_tag (chat py g question) =
           (if pend \<noteq> [] then ''pending_approval'' else ''agent_with_tools'')"
  using assms by (simp_all add: chat_def Let_def)


text \<open>
  Claim C6, as the code has it. On a thread with a non-empty history, when the state read
  before the turn returns that history and the invocation returns the history followed
  by the messages of the turn, the sources, the two lists of used tools and the pending
  queries of the result are those of a scan of the turn's messages alone.
\<close>

theorem turn_attribution:
  assumes "get_state g = Inr (Some history)"
    and "history \<noteq> []"
    and "invoke g [HumanMessage (Text question)] = Inr (history @ new)"
  shows "(sources (chat py g question),
          warehouse_tools_used (chat py g question),
          rag_tools_used (chat py g question),
          case pending_queries (chat py g question) of None \<Rightarrow> [] | Some p \<Rightarrow> p)
         = scan_messages py new"
proof -
  have mb: "messages_before g = length history"
    using assms(1) by (simp add: messages_before_def)
  have turn: "messages_this_turn g (history @ new) = new"
    using assms(2) by (simp add: messages_this_turn_def mb)
  obtain srcs wh rag pend where sc: "scan_messages py new = (srcs, wh, rag, pend)"
    by (cases "scan_messages py new") auto
  have ne: "history @ new \<noteq> []" using assms(2) by simp
  have sc': "scan_messages py (messages_this_turn g (history @ new)) = (srcs, wh, rag, pend)"
    by (simp only: turn sc)
  show ?thesis
    using chat_completed(1-4) [OF assms(3) ne sc'] by (simp add: sc)
qed

lemma sample_new_scan:
  "scan_messages (sample_python None) (HumanMessage (Text ''hi'') # sample_reply)
     = ([], [''query_news_events''], [], [])"
  by (simp add: scan_messages_def scan_message_def sample_reply_def WAREHOUSE_TOOLS_def
        try_parse_pending_query_payload_def sample_python_def)




theorem turn_attribution_witness:
  "get_state (sample_graph (Inr (Some sample_history)) sample_history) = Inr (Some sample_history)
   \<and> sample_history \<noteq> []
   \<and> invoke (sample_graph (Inr (Some sample_history)) sample_history) [HumanMessage (Text ''hi'')]
       = Inr (sample_history @ HumanMessage (Text ''hi'') # sample_reply)
   \<and> (sources (chat (sample_python None) (sample_graph (Inr (Some sample_history)) sample_history) ''hi''),
       warehouse_tools_used (chat (sample_python None) (sample_graph (Inr (Some sample_history)) sample_history) ''hi''),
       rag_tools_used (chat (sample_python None) (sample_graph (Inr (Some sample_history)) sample_history) ''hi''),
       case pending_queries (chat (sample_python None) (sample_graph (Inr (Some sample_history)) sample_history) ''hi'')
       of None \<Rightarrow> [] | Some p \<Rightarrow> p)
      = ([], [''query_news_events''], [], [])"
proof -
  let ?g = "sample_graph (Inr (Some sample_history)) sample_history"
  have h1: "get_state ?g = Inr (Some sample_history)" by (simp add: sample_graph_def)
  have h2: "sample_history \<noteq> []" by (simp add: sample_history_def)
  have h3: "invoke ?g [HumanMessage (Text ''hi'')]
              = Inr (sample_history @ HumanMessage (Text ''hi'') # sample_reply)"
    by (simp add: sample_graph_def)
  note t = turn_attribution [OF h1 h2 h3, where py = "sample_python None"]
  have c: "(sources (chat (sample_python None) ?g ''hi''),
       warehouse_tools_used (chat (sample_python None) ?g ''hi''),
       rag_tools_used (chat (sample_python None) ?g ''hi''),
       case pending_queries (chat (sample_python None) ?g ''hi'') of None \<Rightarrow> [] | Some p \<Rightarrow> p)
      = ([], [''query_news_events''], [], [])"
    using t by (simp only: sample_new_scan)
  show ?thesis
    by (intro conjI) (rule h1 h2 h3 c)+
qed

text \<open>
  When the state read before the turn raises, \<^verbatim>\<open>messages_before\<close> is 0 and the whole
  thread is scanned: the \<^verbatim>\<open>document_search\<close> call of an earlier turn is reported for a
  turn that did not use the tool.
\<close>

theorem turn_attribution_counterexample:
  "sample_history \<noteq> []
   \<and> invoke (sample_graph (Inl (Raised ''connection lost'')) sample_history)
        [HumanMessage (Text ''hi'')]
       = Inr (sample_history @ HumanMessage (Text ''hi'') # sample_reply)
   \<and> fst (snd (snd (scan_messages (sample_python None) (HumanMessage (Text ''hi'') # sample_reply))))
       = []
   \<and> rag_tools_used (chat (sample_python None)
         (sample_graph (Inl (Raised ''connection lost'')) sample_history) ''hi'')
       = [''document_search'']"
proof -
  let ?g = "sample_graph (Inl (Raised ''connection lost'')) sample_history"
  have h2: "sample_history \<noteq> []" by (simp add: sample_history_def)
  have h3: "invoke ?g [HumanMessage (Text ''hi'')]
              = Inr (sample_history @ HumanMessage (Text ''hi'') # sample_reply)"
    by (simp add: sample_graph_def)
  have n: "fst (snd (snd (scan_messages (sample_python None) (HumanMessage (Text ''hi'') # sample_reply)))) = []"
    by (simp only: sample_new_scan) simp
  have turn: "messages_this_turn ?g (sample_history @ HumanMessage (Text ''hi'') # sample_reply)
                = sample_history @ HumanMessage (Text ''hi'') # sample_reply"
    by (simp add: messages_this_turn_def messages_before_def sample_graph_def)
  have sc: "scan_messages (sample_python None)
              (sample_history @ HumanMessage (Text ''hi'') # sample_reply)
            = ([], [''query_news_events''], [''document_search''], [])"
    by (simp add: scan_messages_def scan_message_def sample_reply_def sample_history_def
          WAREHOUSE_TOOLS_def try_parse_pending_query_payload_def sample_python_def
          document_sources_def)
  have ne: "sample_history @ HumanMessage (Text ''hi'') # sample_reply \<noteq> []" by simp
  have r: "rag_tools_used (chat (sample_python None) ?g ''hi'') = [''document_search'']"
    by (rule chat_completed(3) [OF h3 ne]) (simp only: turn sc)
  show ?thesis
    by (intro conjI) (rule h2 h3 n r)+
qed

lemma collect_sources_acc:
  "collect_sources py docs srcs = srcs @ collect_sources py docs []"
proof (induction docs arbitrary: srcs)
  case Nil
  then show ?case by simp
next
  case (Cons doc docs)
  show ?case
  proof (cases doc)
    case (JDict d)
    show ?thesis
    proof (cases "dict_get d ''page_content'' (JStr (str_of py (JDict d)))")
      case (JStr s)
      let ?x = "JDict [(''content'', JStr (take 200 s @ ''...'')),
                       (''metadata'', dict_get d ''metadata'' (JDict []))]"
      have "collect_sources py (doc # docs) srcs = collect_sources py docs (srcs @ [?x])"
        using JDict JStr by simp
      also have "\<dots> = (srcs @ [?x]) @ collect_sources py docs []"
        by (rule Cons.IH)
      also have "\<dots> = srcs @ collect_sources py docs ([] @ [?x])"
        using Cons.IH [of "[] @ [?x]"] by simp
      also have "\<dots> = srcs @ collect_sources py (doc # docs) []"
        using JDict JStr by simp
      finally show ?thesis .
    qed (simp_all add: JDict)
  qed (use Cons.IH [of srcs] in simp_all)
qed

lemma collect_sources_length:
  "length (collect_sources py docs []) \<le> length docs"
proof (induction docs)
  case Nil
  then show ?case by simp
next
  case (Cons doc docs)
  show ?case
  proof (cases doc)
    case (JDict d)
    then show ?thesis
      using Cons.IH collect_sources_acc [of py docs "[x]" for x]
      by (cases "dict_get d ''page_content'' (JStr (str_of py (JDict d)))") simp_all
  qed (use Cons.IH in simp_all)
qed

lemma collect_sources_items:
  assumes "x \<in> set (collect_sources py docs [])"
  shows "\<exists>d s. JDict d \<in> set docs
           \<and> dict_get d ''page_content'' (JStr (str_of py (JDict d))) = JStr s
           \<and> x = JDict [(''content'', JStr (take 200 s @ ''...'')),
                        (''metadata'', dict_get d ''metadata'' (JDict []))]"
  using assms
proof (induction docs)
  case Nil
  then show ?case by simp
next
  case (Cons doc docs)
  show ?case
  proof (cases doc)
    case (JDict d)
    show ?thesis
    proof (cases "dict_get d ''page_content'' (JStr (str_of py (JDict d)))")
      case (JStr s)
      let ?y = "JDict [(''content'', JStr (take 200 s @ ''...'')),
                       (''metadata'', dict_get d ''metadata'' (JDict []))]"
      have "collect_sources py (doc # docs) [] = ?y # collect_sources py docs []"
        using JDict JStr collect_sources_acc [of py docs "[?y]"] by simp
      with Cons.prems have "x = ?y \<or> x \<in> set (collect_sources py docs [])" by simp
      then show ?thesis
      proof
        assume "x = ?y"
        with JDict JStr show ?thesis by auto
      next
        assume "x \<in> set (collect_sources py docs [])"
        from Cons.IH [OF this] show ?thesis by auto
      qed
    qed (use Cons.prems JDict in simp_all)
  qed (use Cons in auto)
qed

lemma document_sources_acc:
  "document_sources py c srcs = srcs @ document_sources py c []"
  using collect_sources_acc [of py _ srcs]
  by (simp add: document_sources_def split: content.splits option.splits json.splits)

lemma document_sources_parsed:
  "document_sources py c [] =
     (case parsed_documents py c of
        None \<Rightarrow> []
      | Some docs \<Rightarrow> collect_sources py (take 3 docs) [])"
  by (simp add: document_sources_def parsed_documents_def
      split: content.splits option.splits json.splits)

lemma scan_message_document_search:
  "fst (scan_message py (srcs, wh, rag, pend) (ToolMessage c (Some ''document_search'') tid))
     = document_sources py c srcs"
  by (simp add: scan_message_def Let_def split: content.splits option.splits)

text \<open>
  Claim C7. A tool-result message of \<^verbatim>\<open>document_search\<close> adds to the sources at most
  three entries; each comes from a dictionary among the first three items of the list its
  content parses to, and its \<^verbatim>\<open>content\<close> is the first 200 characters of the item's text
  followed by \<^verbatim>\<open>...\<close>. When the content does not parse as a list, the message adds no
  source; in every case the scan goes on with a value, not an exception.
\<close>

theorem document_search_sources:
  "fst (scan_message py (srcs, wh, rag, pend) (ToolMessage c (Some ''document_search'') tid))
     = srcs @ document_sources py c []
   \<and> length (document_sources py c []) \<le> 3
   \<and> (\<forall>x \<in> set (document_sources py c []).
         \<exists>d s. JDict d \<in> set (take 3 (case parsed_documents py c of None \<Rightarrow> [] | Some docs \<Rightarrow> docs))
           \<and> dict_get d ''page_content'' (JStr (str_of py (JDict d))) = JStr s
           \<and> x = JDict [(''content'', JStr (take 200 s @ ''...'')),
                        (''metadata'', dict_get d ''metadata'' (JDict []))])
   \<and> (parsed_documents py c = None \<longrightarrow> document_sources py c [] = [])"
proof (intro conjI ballI impI)
  show "fst (scan_message py (srcs, wh, rag, pend) (ToolMessage c (Some ''document_search'') tid))
          = srcs @ document_sources py c []"
    using document_sources_acc [of py c srcs] by (simp only: scan_message_document_search)
next
  show "length (document_sources py c []) \<le> 3"
  proof (cases "parsed_documents py c")
    case None
    then show ?thesis by (simp add: document_sources_parsed)
  next
    case (Some docs)
    have "length (collect_sources py (take 3 docs) []) \<le> length (take 3 docs)"
      by (rule collect_sources_length)
    then show ?thesis using Some by (simp add: document_sources_parsed)
  qed
next
  fix x assume x: "x \<in> set (document_sources py c [])"
  show "\<exists>d s. JDict d \<in> set (take 3 (case parsed_documents py c of None \<Rightarrow> [] | Some docs \<Rightarrow> docs))
           \<and> dict_get d ''page_content'' (JStr (str_of py (JDict d))) = JStr s
           \<and> x = JDict [(''content'', JStr (take 200 s @ ''...'')),
                        (''metadata'', dict_get d ''metadata'' (JDict []))]"
  proof (cases "parsed_documents py c")
    case None
    with x show ?thesis by (simp add: document_sources_parsed)
  next
    case (Some docs)
    with x have "x \<in> set (collect_sources py (take 3 docs) [])"
      by (simp add: document_sources_parsed)
    from collect_sources_items [OF this] show ?thesis using Some by simp
  qed
next
  assume "parsed_documents py c = None"
  then show "document_sources py c [] = []" by (simp add: document_sources_parsed)
qed
theorem document_search_sources_witness:
  "fst (scan_message (sample_python (Some sample_documents)) ([], [], [], [])
          (ToolMessage (Text ''docs'') (Some ''document_search'') ''c0''))
     = [JDict [(''content'', JStr ''alpha...''), (''metadata'', JDict [(''page'', JInt 1)])],
        JDict [(''content'', JStr ''value...''), (''metadata'', JDict [])]]
   \<and> JDict [(''content'', JStr ''alpha...''), (''metadata'', JDict [(''page'', JInt 1)])]
       \<in> set (document_sources (sample_python (Some sample_documents)) (Text ''docs'') [])
   \<and> (\<exists>d s. JDict d \<in> set (take 3 (case parsed_documents (sample_python (Some sample_documents))
                                            (Text ''docs'') of None \<Rightarrow> [] | Some docs \<Rightarrow> docs))
           \<and> dict_get d ''page_content''
                (JStr (str_of (sample_python (Some sample_documents)) (JDict d))) = JStr s
           \<and> JDict [(''content'', JStr ''alpha...''), (''metadata'', JDict [(''page'', JInt 1)])]
               = JDict [(''content'', JStr (take 200 s @ ''...'')),
                        (''metadata'', dict_get d ''metadata'' (JDict []))])
   \<and> parsed_documents (sample_python None) (Text ''docs'') = None
   \<and> document_sources (sample_python None) (Text ''docs'') [] = []"
proof -
  let ?py = "sample_python (Some sample_documents)"
  let ?a = "JDict [(''content'', JStr ''alpha...''), (''metadata'', JDict [(''page'', JInt 1)])]"
  have ev: "document_sources ?py (Text ''docs'') []
              = [?a, JDict [(''content'', JStr ''value...''), (''metadata'', JDict [])]]"
    by (simp add: document_sources_def sample_python_def sample_documents_def dict_get_def)
  have m: "?a \<in> set (document_sources ?py (Text ''docs'') [])"
    by (simp only: ev) simp
  have p: "parsed_documents (sample_python None) (Text ''docs'') = None"
    by (simp add: parsed_documents_def sample_python_def)
  note t = document_search_sources [where py = ?py and c = "Text ''docs''" and srcs = "[]"
      and wh = "[]" and rag = "[]" and pend = "[]" and tid = "''c0''"]
  note u = document_search_sources [where py = "sample_python None" and c = "Text ''docs''"]
  have c1: "fst (scan_message ?py ([], [], [], [])
              (ToolMessage (Text ''docs'') (Some ''document_search'') ''c0''))
            = [?a, JDict [(''content'', JStr ''value...''), (''metadata'', JDict [])]]"
    using t [THEN conjunct1] by (simp only: ev append_Nil)
  note c3 = t [THEN conjunct2, THEN conjunct2, THEN conjunct1, THEN bspec, OF m]
  note c4 = u [THEN conjunct2, THEN conjunct2, THEN conjunct2, THEN mp, OF p]
  show ?thesis
    by (intro conjI) (rule c1 m c3 p c4)+
qed

section \<open>Properties of \<^verbatim>\<open>tools_node\<close>\<close>

lemma dispatch_with_id:
  assumes "call_id tc = Some i"
  shows "fst (dispatch_tool_call py tbn tc s) =
           Inr (ToolMessage
                  (Text (case tbn (call_name tc) of
                           None \<Rightarrow> ''Tool '' @ call_name tc @ '' not found''
                         | Some t \<Rightarrow>
                             (case fst (t (call_args tc) s) of
                                Inl e \<Rightarrow> ''Error: '' @ str_exn e
                              | Inr (StrValue r) \<Rightarrow> r
                              | Inr (OtherValue x) \<Rightarrow> str_of py x)))
                  (Some (call_name tc)) i)"
proof (cases "tbn (call_name tc)")
  case None
  then show ?thesis
    using assms by (simp add: dispatch_tool_call_def tool_message_def)
next
  case (Some t)
  obtain r s' where r: "t (call_args tc) s = (r, s')" by (cases "t (call_args tc) s")
  show ?thesis
    using assms Some r
    by (cases r)
       (simp_all add: dispatch_tool_call_def tool_message_def dispatch_handler_def
          split: tool_value.splits)
qed

lemma dispatch_without_id:
  assumes "call_id tc = None"
  shows "fst (dispatch_tool_call py tbn tc s) = Inl (Raised (validation_error py))"
proof (cases "tbn (call_name tc)")
  case None
  then show ?thesis
    using assms by (simp add: dispatch_tool_call_def tool_message_def dispatch_handler_def)
next
  case (Some t)
  obtain r s' where r: "t (call_args tc) s = (r, s')" by (cases "t (call_args tc) s")
  show ?thesis
    using assms Some r
    by (cases r) (simp_all add: dispatch_tool_call_def tool_message_def dispatch_handler_def)
qed

lemma dispatch_all_with_ids:
  assumes "\<forall>tc \<in> set tcs. call_id tc \<noteq> None"
  shows "\<exists>outs. fst (dispatch_all py tbn tcs acc s) = Inr (acc @ outs) \<and> length outs = length tcs"
  using assms
proof (induction tcs arbitrary: acc s)
  case Nil
  then show ?case by simp
next
  case (Cons tc tcs)
  from Cons.prems obtain i where i: "call_id tc = Some i" by auto
  obtain r s' where d: "dispatch_tool_call py tbn tc s = (r, s')"
    by (cases "dispatch_tool_call py tbn tc s")
  from dispatch_with_id [OF i, of py tbn s] d obtain m where m: "r = Inr m" by auto
  from Cons.prems have "\<forall>tc \<in> set tcs. call_id tc \<noteq> None" by simp
  from Cons.IH [OF this, of "acc @ [m]" s']
  obtain outs where o: "fst (dispatch_all py tbn tcs (acc @ [m]) s') = Inr ((acc @ [m]) @ outs)"
    and l: "length outs = length tcs" by blast
  have "fst (dispatch_all py tbn (tc # tcs) acc s) = Inr (acc @ (m # outs))"
    using o by (simp add: d m)
  moreover have "length (m # outs) = length (tc # tcs)" using l by simp
  ultimately show ?case by blast
qed

lemma dispatch_all_without_id:
  assumes "\<forall>tc' \<in> set before. call_id tc' \<noteq> None" and "call_id tc = None"
  shows "fst (dispatch_all py tbn (before @ tc # later) acc s) = Inl (Raised (validation_error py))"
  using assms(1)
proof (induction before arbitrary: acc s)
  case Nil
  obtain r s' where d: "dispatch_tool_call py tbn tc s = (r, s')"
    by (cases "dispatch_tool_call py tbn tc s")
  from dispatch_without_id [OF assms(2), of py tbn s] d
  have "r = Inl (Raised (validation_error py))" by simp
  then show ?case by (simp add: d)
next
  case (Cons b before)
  from Cons.prems obtain i where i: "call_id b = Some i" by auto
  obtain r s' where d: "dispatch_tool_call py tbn b s = (r, s')"
    by (cases "dispatch_tool_call py tbn b s")
  from dispatch_with_id [OF i, of py tbn s] d obtain m where m: "r = Inr m" by auto
  from Cons.prems have "\<forall>tc' \<in> set before. call_id tc' \<noteq> None" by simp
  from Cons.IH [OF this, of "acc @ [m]" s'] show ?case by (simp add: d m)
qed

text \<open>
  With an \<^verbatim>\<open>id\<close> on every requested call, the node returns one message per call.
\<close>

lemma tools_node_with_ids:
  assumes "messages \<noteq> []" and "last messages = AIMessage c calls"
    and "\<forall>tc \<in> set calls. call_id tc \<noteq> None"
  shows "\<exists>outs. fst (tools_node py tbn messages s) = Inr outs \<and> length outs = length calls"
proof (cases "calls = []")
  case True
  then show ?thesis using assms(1,2) by (simp add: tools_node_def)
next
  case False
  from dispatch_all_with_ids [OF assms(3), of py tbn "[]" s]
  show ?thesis using assms(1,2) False by (simp add: tools_node_def)
qed

text \<open>
  A requested call whose \<^verbatim>\<open>id\<close> is \<^verbatim>\<open>None\<close> makes the node raise, whatever the tool
  does: no message is returned for any call.
\<close>

lemma tools_node_without_id:
  assumes "messages \<noteq> []" and "last messages = AIMessage c (before @ tc # later)"
    and "\<forall>tc' \<in> set before. call_id tc' \<noteq> None" and "call_id tc = None"
  shows "fst (tools_node py tbn messages s) = Inl (Raised (validation_error py))"
  using assms(1,2) dispatch_all_without_id [OF assms(3,4), of py tbn later "[]" s]
  by (simp add: tools_node_def)


end
